theory Spec2Isabelle
  imports Main "HOL-Library.Word"
begin

unbundle bit_operations_syntax

section \<open>C strings and the C library\<close>

text \<open>
  A C string is modelled as a \<open>string\<close> (the bytes before the terminating NUL), a
  \<open>char *\<close> that may be \<open>NULL\<close> as a \<open>string option\<close>.  The idiom
  \<^verbatim>\<open>if((s1 = strchr(s0, c))) *s1++ = 0;\<close> cuts \<open>s0\<close> at the first \<open>c\<close>: afterwards
  \<open>s0\<close> is the part before it and \<open>s1\<close> the part after it.
\<close>

definition strchr_cut :: "char \<Rightarrow> string \<Rightarrow> (string \<times> string) option" where
  "strchr_cut c s =
     (if c \<in> set s
      then Some (takeWhile (\<lambda>x. x \<noteq> c) s, tl (dropWhile (\<lambda>x. x \<noteq> c) s))
      else None)"

text \<open>The same cut at the last occurrence, for \<^verbatim>\<open>strrchr\<close>.\<close>

definition strrchr_cut :: "char \<Rightarrow> string \<Rightarrow> (string \<times> string) option" where
  "strrchr_cut c s =
     (if c \<in> set s
      then Some (rev (tl (dropWhile (\<lambda>x. x \<noteq> c) (rev s))),
                 rev (takeWhile (\<lambda>x. x \<noteq> c) (rev s)))
      else None)"

definition strcspn :: "string \<Rightarrow> string \<Rightarrow> nat" where
  "strcspn s reject = length (takeWhile (\<lambda>x. x \<notin> set reject) s)"

definition isspace :: "char \<Rightarrow> bool" where
  "isspace c = (c \<in> set [CHR '' '', CHR 0x09, CHR 0x0A, CHR 0x0B, CHR 0x0C, CHR 0x0D])"

definition isdigit :: "char \<Rightarrow> bool" where
  "isdigit c = (48 \<le> (of_char c :: nat) \<and> (of_char c :: nat) \<le> 57)"

definition isupper :: "char \<Rightarrow> bool" where
  "isupper c = (65 \<le> (of_char c :: nat) \<and> (of_char c :: nat) \<le> 90)"

definition islower :: "char \<Rightarrow> bool" where
  "islower c = (97 \<le> (of_char c :: nat) \<and> (of_char c :: nat) \<le> 122)"

definition isalnum :: "char \<Rightarrow> bool" where
  "isalnum c = (isdigit c \<or> isupper c \<or> islower c)"

text \<open>The value of a digit in any base up to 36, as \<^verbatim>\<open>strtoul\<close> reads it.\<close>

definition digit_val :: "char \<Rightarrow> nat" where
  "digit_val c =
     (if isdigit c then of_char c - 48
      else if isupper c then of_char c - 55
      else if islower c then of_char c - 87
      else 36)"

definition isxdigit :: "char \<Rightarrow> bool" where
  "isxdigit c = (digit_val c < 16)"

definition ULONG_MAX :: nat where
  "ULONG_MAX = 2 ^ 64 - 1"

text \<open>
  \<^verbatim>\<open>strtoul(s, &end, 0)\<close> with a 64-bit \<^verbatim>\<open>unsigned long\<close>: white space, an optional sign,
  the base taken from the prefix (\<^verbatim>\<open>0x\<close> hexadecimal, \<^verbatim>\<open>0\<close> octal, decimal otherwise), the
  longest run of digits of that base.  The result is the value (clamped on overflow, negated
  modulo \<open>2 ^ 64\<close> after a minus sign) and the unread rest; with no digit at all the value is
  0 and the rest is the whole input.
\<close>

definition strtoul0 :: "string \<Rightarrow> nat \<times> string" where
  "strtoul0 s =
     (let s1 = dropWhile isspace s;
          neg = (s1 \<noteq> [] \<and> hd s1 = CHR ''-'');
          s2 = (if s1 \<noteq> [] \<and> (hd s1 = CHR ''-'' \<or> hd s1 = CHR ''+'') then tl s1 else s1);
          hex = (3 \<le> length s2 \<and> s2 ! 0 = CHR ''0'' \<and>
                 (s2 ! 1 = CHR ''x'' \<or> s2 ! 1 = CHR ''X'') \<and> isxdigit (s2 ! 2));
          base = (if hex then 16 else if s2 \<noteq> [] \<and> hd s2 = CHR ''0'' then 8 else 10);
          s3 = (if hex then drop 2 s2 else s2);
          ds = takeWhile (\<lambda>c. digit_val c < base) s3;
          v = foldl (\<lambda>a c. a * base + digit_val c) 0 ds
      in if ds = [] then (0, s)
         else (if ULONG_MAX < v then ULONG_MAX
               else if neg then (2 ^ 64 - v) mod 2 ^ 64 else v,
               dropWhile (\<lambda>c. digit_val c < base) s3))"

text \<open>\<^verbatim>\<open>printf("%u", n)\<close>: the decimal digits of \<open>n\<close>, most significant first.\<close>

fun dec_fuel :: "nat \<Rightarrow> nat \<Rightarrow> string" where
  "dec_fuel 0 n = []"
| "dec_fuel (Suc k) n =
     (if n < 10 then [''0123456789'' ! n]
      else dec_fuel k (n div 10) @ [''0123456789'' ! (n mod 10)])"


text \<open>\<^verbatim>\<open>printf("%s", p)\<close>; glibc prints a NULL pointer as \<^verbatim>\<open>(null)\<close>.\<close>

definition print_s :: "string option \<Rightarrow> string" where
  "print_s p = (case p of None \<Rightarrow> ''(null)'' | Some s \<Rightarrow> s)"

section \<open>The URL record\<close>

text \<open>
  \<^verbatim>\<open>instmode_t\<close>. Modelled from the spec: the enumeration is declared in \<^verbatim>\<open>global.h\<close>, which
  is not part of the sources at hand; the schemes are those of the spec's data model.  The code
  of \<^verbatim>\<open>url_set\<close> fixes \<open>inst_none = 0\<close> (a fresh record is zeroed and \<^verbatim>\<open>if(url->scheme)\<close>
  tests for a scheme); only the distinctness of the other values matters.  A scheme is kept as
  the \<^verbatim>\<open>int\<close> it is in C, because \<^verbatim>\<open>url_set\<close> stores whatever non-negative number
  \<^verbatim>\<open>file_sym2num\<close> returns.
\<close>

definition inst_none :: int where "inst_none = 0"
definition inst_file :: int where "inst_file = 1"
definition inst_nfs :: int where "inst_nfs = 2"
definition inst_ftp :: int where "inst_ftp = 3"
definition inst_smb :: int where "inst_smb = 4"
definition inst_http :: int where "inst_http = 5"
definition inst_tftp :: int where "inst_tftp = 6"
definition inst_cdrom :: int where "inst_cdrom = 7"
definition inst_floppy :: int where "inst_floppy = 8"
definition inst_hd :: int where "inst_hd = 9"
definition inst_dvd :: int where "inst_dvd = 10"
definition inst_slp :: int where "inst_slp = 13"
definition inst_exec :: int where "inst_exec = 14"
definition inst_rel :: int where "inst_rel = 15"
definition inst_disk :: int where "inst_disk = 16"

lemmas inst_defs =
  inst_none_def inst_file_def inst_nfs_def inst_ftp_def inst_smb_def inst_http_def
  inst_tftp_def inst_cdrom_def inst_floppy_def inst_hd_def inst_dvd_def inst_slp_def
  inst_exec_def inst_rel_def inst_disk_def

text \<open>
  \<^verbatim>\<open>url_t\<close>: the fields the code of \<^verbatim>\<open>url.c\<close> reads and writes.  \<open>query\<close> is the
  \<^verbatim>\<open>slist_t\<close> chain of keys with their optional values; the \<open>used_*\<close> fields are the
  \<^verbatim>\<open>used\<close> sub-record, the \<open>is_*\<close> fields the \<^verbatim>\<open>is\<close> bit field.
\<close>

record url_t =
  str :: "string option"
  scheme :: int
  server :: "string option"
  share :: "string option"
  path :: "string option"
  user :: "string option"
  password :: "string option"
  domain :: "string option"
  device :: "string option"
  instsys :: "string option"
  mount :: "string option"
  tmp_mount :: "string option"
  port :: "32 word"
  query :: "(string \<times> string option) list"
  is_mountable :: bool
  is_network :: bool
  is_cdrom :: bool
  is_wlan :: bool
  is_file :: bool
  download :: bool
  used_device :: "string option"
  used_hwaddr :: "string option"
  used_model :: "string option"
  used_unique_id :: "string option"
  used_server :: "string option"

text \<open>\<^verbatim>\<open>calloc(1, sizeof *url)\<close>: every pointer NULL, every number 0.\<close>

definition url_calloc :: url_t where
  "url_calloc = \<lparr> str = None, scheme = 0, server = None, share = None, path = None,
     user = None, password = None, domain = None, device = None, instsys = None,
     mount = None, tmp_mount = None, port = 0, query = [],
     is_mountable = False, is_network = False, is_cdrom = False, is_wlan = False,
     is_file = False, download = False,
     used_device = None, used_hwaddr = None, used_model = None, used_unique_id = None,
     used_server = None \<rparr>"

text \<open>What \<^verbatim>\<open>stat\<close> tells \<^verbatim>\<open>url_set\<close> about a path that exists.\<close>

datatype st_mode = S_IFBLK | S_IFDIR | S_IFOTHER

text \<open>
  The collaborators of the URL model that live outside \<^verbatim>\<open>url.c\<close>, as parameters:
  \<^verbatim>\<open>file_sym2num\<close> and \<^verbatim>\<open>get_instmode_name\<close> (\<^verbatim>\<open>file.c\<close>), \<^verbatim>\<open>slist_split\<close> and
  \<^verbatim>\<open>short_dev\<close> (\<^verbatim>\<open>util.c\<close>), libcurl's \<^verbatim>\<open>curl_easy_unescape\<close> and \<^verbatim>\<open>curl_easy_escape\<close>,
  the file system as \<^verbatim>\<open>stat\<close> sees it (\<open>None\<close>: \<^verbatim>\<open>stat\<close> fails), and \<^verbatim>\<open>config.debug\<close>.
\<close>

record url_env =
  file_sym2num :: "string \<Rightarrow> int"
  get_instmode_name :: "int \<Rightarrow> string"
  slist_split :: "char \<Rightarrow> string \<Rightarrow> string list"
  short_dev :: "string option \<Rightarrow> string option"
  curl_easy_unescape :: "string \<Rightarrow> string"
  curl_easy_escape :: "string \<Rightarrow> string"
  stat :: "string \<Rightarrow> st_mode option"
  config_debug :: int

section \<open>url_set\<close>

text \<open>
  Lines 361--404: the scheme, the authority block (returned as \<open>tmp\<close>), the query and the
  raw path.  With a colon, an unknown scheme name (a negative \<^verbatim>\<open>file_sym2num\<close>) becomes
  \<open>inst_none\<close> and nothing else is read; without a colon the whole string is a scheme
  name or, when \<^verbatim>\<open>file_sym2num\<close> says \<open>-1\<close>, a relative path.
\<close>

definition url_set_query :: "url_env \<Rightarrow> string \<Rightarrow> (string \<times> string option) list" where
  "url_set_query env s1 =
     map (\<lambda>key. case strchr_cut CHR ''='' key of
                   None \<Rightarrow> (key, None)
                 | Some (k, v) \<Rightarrow> (k, Some v))
         (slist_split env CHR ''&'' s1)"

definition url_set_scheme :: "url_env \<Rightarrow> string \<Rightarrow> url_t \<Rightarrow> url_t \<times> string option" where
  "url_set_scheme env s url =
     (case strchr_cut CHR '':'' s of
        Some (s0, s1) \<Rightarrow>
          (let i = file_sym2num env s0;
               url = url\<lparr>scheme := (if 0 \<le> i then i else inst_none)\<rparr>
           in if scheme url \<noteq> 0 then
                (let auth = (take 2 s1 = ''//'');
                     i = (if auth then strcspn (drop 2 s1) ''/?'' else 0);
                     tmp = (if auth \<and> i \<noteq> 0 then Some (take i (drop 2 s1)) else None);
                     s0 = (if auth then drop (i + 2) s1 else s1);
                     (s0, url) = (case strchr_cut CHR ''?'' s0 of
                                    Some (a, q) \<Rightarrow> (a, url\<lparr>query := url_set_query env q\<rparr>)
                                  | None \<Rightarrow> (s0, url))
                 in (url\<lparr>path := Some (if s0 \<noteq> [] \<and> hd s0 = CHR ''/'' then tl s0 else s0)\<rparr>,
                     tmp))
              else (url, None))
      | None \<Rightarrow>
          (let i = file_sym2num env s
           in if 0 \<le> i then (url\<lparr>scheme := i, path := Some []\<rparr>, None)
              else if i = - 1 then (url\<lparr>scheme := inst_rel, path := Some s\<rparr>, None)
              else (url, None)))"

text \<open>Lines 408--439: \<^verbatim>\<open>domain;user:password@server:port\<close>.\<close>

definition url_set_authority :: "string \<Rightarrow> url_t \<Rightarrow> url_t" where
  "url_set_authority tmp url =
     (let (s0, url) = (case strchr_cut CHR '';'' tmp of
                         Some (d, s1) \<Rightarrow> (s1, url\<lparr>domain := Some d\<rparr>)
                       | None \<Rightarrow> (tmp, url));
          (s0, url) = (case strchr_cut CHR ''@'' s0 of
                         Some (up, s1) \<Rightarrow>
                           (case strchr_cut CHR '':'' up of
                              Some (u, p) \<Rightarrow> (s1, url\<lparr>password := Some p, user := Some u\<rparr>)
                            | None \<Rightarrow> (s1, url\<lparr>user := Some up\<rparr>))
                       | None \<Rightarrow> (s0, url));
          (s0, url) = (case strchr_cut CHR '':'' s0 of
                         Some (h, s1) \<Rightarrow>
                           (if s1 \<noteq> [] \<and> snd (strtoul0 s1) = []
                            then (h, url\<lparr>port := of_nat (fst (strtoul0 s1))\<rparr>)
                            else (h, url))
                       | None \<Rightarrow> (s0, url))
      in url\<lparr>server := Some s0\<rparr>)"

text \<open>Lines 441--450: for \<^verbatim>\<open>smb\<close> the first path element is the share.\<close>

definition url_set_share :: "url_t \<Rightarrow> url_t" where
  "url_set_share url =
     (if scheme url = inst_smb \<and> path url \<noteq> None then
        (case strchr_cut CHR ''/'' (the (path url)) of
           Some (sh, p) \<Rightarrow> url\<lparr>share := Some sh, path := Some p\<rparr>
         | None \<Rightarrow> url\<lparr>share := path url, path := None\<rparr>)
      else url)"

text \<open>Lines 452--466: the six strings that are unescaped.\<close>

definition url_set_unescape :: "url_env \<Rightarrow> url_t \<Rightarrow> url_t" where
  "url_set_unescape env url =
     url\<lparr>server := map_option (curl_easy_unescape env) (server url),
         share := map_option (curl_easy_unescape env) (share url),
         path := map_option (curl_easy_unescape env) (path url),
         user := map_option (curl_easy_unescape env) (user url),
         password := map_option (curl_easy_unescape env) (password url),
         domain := map_option (curl_easy_unescape env) (domain url)\<rparr>"

text \<open>
  Lines 490--502, the \<^verbatim>\<open>do ... while\<close> loop over the prefixes of \<open>tmp\<close> that end before a
  slash: \<open>pre\<close> is the part of \<open>tmp\<close> up to and including the slash the loop stands on,
  \<open>suf\<close> the part behind it.  The result is the new device and path when a prefix is a
  block device.  The outer \<open>option\<close> is \<open>None\<close> when \<^verbatim>\<open>strdup\<close> is handed the NULL that
  \<^verbatim>\<open>short_dev\<close> returned.
\<close>

function url_set_probe ::
  "url_env \<Rightarrow> string \<Rightarrow> string \<Rightarrow> (string \<times> string option) option option" where
  "url_set_probe env pre suf =
     (let cur = pre @ takeWhile (\<lambda>x. x \<noteq> CHR ''/'') suf;
          more = dropWhile (\<lambda>x. x \<noteq> CHR ''/'') suf
      in case stat env cur of
           None \<Rightarrow> Some None
         | Some S_IFBLK \<Rightarrow>
             (case short_dev env (Some cur) of
                None \<Rightarrow> None
              | Some d \<Rightarrow> Some (Some (d, if more = [] then None else Some (tl more))))
         | Some S_IFDIR \<Rightarrow>
             (if more = [] then Some None
              else url_set_probe env (cur @ ''/'') (tl more))
         | Some S_IFOTHER \<Rightarrow> Some None)"
  by pat_completeness auto
termination
proof (relation "measure (\<lambda>(env, pre, suf). length suf)", goal_cases)
  case 1
  show ?case by simp
next
  case (2 env pre suf cur more m)
  have "length (dropWhile (\<lambda>x. x \<noteq> CHR ''/'') suf) \<le> length suf"
    by (rule length_dropWhile_le)
  moreover from 2 have "dropWhile (\<lambda>x. x \<noteq> CHR ''/'') suf \<noteq> []"
    by simp
  ultimately show ?case
    using 2 by (cases "dropWhile (\<lambda>x. x \<noteq> CHR ''/'') suf") auto
qed

text \<open>Lines 468--506: disk, cdrom, dvd, floppy and hd let the path begin with a device.\<close>

definition url_set_device :: "url_env \<Rightarrow> url_t \<Rightarrow> url_t option" where
  "url_set_device env url =
     (if (scheme url = inst_disk \<or> scheme url = inst_cdrom \<or> scheme url = inst_dvd \<or>
          scheme url = inst_floppy \<or> scheme url = inst_hd) \<and> path url \<noteq> None then
        (let p = the (path url);
             tmp = (if take 3 p \<noteq> ''dev'' \<or> (3 < length p \<and> p ! 3 \<noteq> CHR ''/'')
                    then ''dev/'' @ p else p)
         in case url_set_probe env ''/'' tmp of
              None \<Rightarrow> None
            | Some None \<Rightarrow> Some url
            | Some (Some (d, p')) \<Rightarrow> Some (url\<lparr>device := Some d, path := p'\<rparr>))
      else Some url)"

text \<open>
  \<^verbatim>\<open>slist_getentry\<close>. Modelled from the spec: the function is in \<^verbatim>\<open>util.c\<close>, which is not
  part of the sources at hand; the query is an ordered list whose keys need not be unique,
  and the entry found is the first one with the key.
\<close>

definition slist_getentry :: "(string \<times> string option) list \<Rightarrow> string \<Rightarrow> (string \<times> string option) option" where
  "slist_getentry sl key = find (\<lambda>e. fst e = key) sl"

text \<open>
  Lines 508--515: the \<^verbatim>\<open>device\<close> and \<^verbatim>\<open>instsys\<close> query keys.  \<^verbatim>\<open>*s0\<close> dereferences what
  \<^verbatim>\<open>short_dev\<close> returned: the result is \<open>None\<close> when that is NULL.
\<close>

definition url_set_options :: "url_env \<Rightarrow> url_t \<Rightarrow> url_t option" where
  "url_set_options env url =
     (let r = (case slist_getentry (query url) ''device'' of
                 Some sl \<Rightarrow>
                   (case short_dev env (snd sl) of
                      None \<Rightarrow> None
                    | Some s0 \<Rightarrow> Some (url\<lparr>device := (if s0 \<noteq> [] then Some s0 else None)\<rparr>))
               | None \<Rightarrow> Some url)
      in case r of
           None \<Rightarrow> None
         | Some url \<Rightarrow>
             (case slist_getentry (query url) ''instsys'' of
                Some sl \<Rightarrow> Some (url\<lparr>instsys := snd sl\<rparr>)
              | None \<Rightarrow> Some url))"

text \<open>Lines 517--547: the capability flags, from the scheme alone.\<close>

definition url_set_mountable :: "url_t \<Rightarrow> url_t" where
  "url_set_mountable url =
     (if scheme url = inst_file \<or> scheme url = inst_nfs \<or> scheme url = inst_smb \<or>
         scheme url = inst_cdrom \<or> scheme url = inst_floppy \<or> scheme url = inst_hd \<or>
         scheme url = inst_disk \<or> scheme url = inst_dvd \<or> scheme url = inst_exec
      then url\<lparr>is_mountable := True\<rparr> else url)"

definition url_set_network :: "url_t \<Rightarrow> url_t" where
  "url_set_network url =
     (if scheme url = inst_slp \<or> scheme url = inst_nfs \<or> scheme url = inst_ftp \<or>
         scheme url = inst_smb \<or> scheme url = inst_http \<or> scheme url = inst_tftp
      then url\<lparr>is_network := True\<rparr> else url)"

definition url_set_cdrom :: "url_t \<Rightarrow> url_t" where
  "url_set_cdrom url =
     (if scheme url = inst_cdrom \<or> scheme url = inst_dvd
      then url\<lparr>is_cdrom := True\<rparr> else url)"

definition url_set_flags :: "url_t \<Rightarrow> url_t" where
  "url_set_flags url = url_set_cdrom (url_set_network (url_set_mountable url))"

text \<open>Lines 549--559: a mountable url has a path that begins with a slash.\<close>

definition url_set_slash :: "url_t \<Rightarrow> url_t" where
  "url_set_slash url =
     (if is_mountable url then
        (case path url of
           Some p \<Rightarrow> (if p = [] \<or> hd p \<noteq> CHR ''/'' then url\<lparr>path := Some (CHR ''/'' # p)\<rparr> else url)
         | None \<Rightarrow> url\<lparr>path := Some ''/''\<rparr>)
      else url)"

text \<open>Lines 408--559, on the record and the authority block that lines 361--404 leave.\<close>

definition url_set_rest :: "url_env \<Rightarrow> url_t \<Rightarrow> string option \<Rightarrow> url_t option" where
  "url_set_rest env url tmp =
     (let url = (case tmp of Some t \<Rightarrow> url_set_authority t url | None \<Rightarrow> url);
          url = url_set_unescape env (url_set_share url)
      in case url_set_device env url of
           None \<Rightarrow> None
         | Some url \<Rightarrow>
             (case url_set_options env url of
                None \<Rightarrow> None
              | Some url \<Rightarrow> Some (url_set_slash (url_set_flags url))))"

text \<open>
  \<^verbatim>\<open>url_set\<close>.  The argument is \<open>None\<close> for a NULL string; the result is \<open>None\<close> when the
  function dereferences a NULL pointer, and the record it returns otherwise.
\<close>

definition url_set :: "url_env \<Rightarrow> string option \<Rightarrow> url_t option" where
  "url_set env s =
     (case s of
        None \<Rightarrow> Some url_calloc
      | Some s \<Rightarrow>
          (case url_set_scheme env s (url_calloc\<lparr>str := Some s\<rparr>) of
             (url, tmp) \<Rightarrow> url_set_rest env url tmp))"

section \<open>url_print\<close>






section \<open>The round trip of url_set and url_print\<close>



text \<open>
  \<open>none_of cs s\<close>: no character of \<open>cs\<close> occurs in the string \<open>s\<close>; \<open>field_free cs x\<close>: the
  same for a field that may be NULL.  \<open>mountable_scheme\<close> lists the schemes of lines 517--527.
\<close>

definition none_of :: "string \<Rightarrow> string \<Rightarrow> bool" where
  "none_of cs s = (\<forall>c \<in> set s. c \<notin> set cs)"

definition field_free :: "string \<Rightarrow> string option \<Rightarrow> bool" where
  "field_free cs x = (case x of None \<Rightarrow> True | Some s \<Rightarrow> none_of cs s)"







section \<open>The transfer state\<close>

text \<open>
  \<^verbatim>\<open>url_data_t\<close>. Modelled from the spec: the type is declared in \<^verbatim>\<open>url.h\<close>, which is not part
  of the sources at hand; the fields are those \<^verbatim>\<open>url.c\<close> uses.  The byte counters, the
  totals and the image size are 32-bit \<^verbatim>\<open>unsigned\<close>: \<^verbatim>\<open>url_progress\<close> prints them with
  \<^verbatim>\<open>%u\<close> and widens them to \<^verbatim>\<open>uint64_t\<close> before it multiplies.  \<open>buf_data\<close> holds the
  \<open>buf.len\<close> bytes buffered so far, \<open>f\<close> tells whether the output stream is open, \<open>out\<close>
  is what has been written to it, \<open>sha1_in\<close> what has been fed to the digest, and
  \<open>progress\<close> whether a progress callback is set.
\<close>

record url_data_t =
  unzip :: bool
  gzip :: bool
  cramfs :: bool
  flush :: bool
  file_opened :: bool
  label_shown :: bool
  progress :: bool
  buf_data :: "8 word list"
  buf_max :: nat
  orig_name :: "string option"
  image_size :: "32 word"
  p_now :: "32 word"
  p_total :: "32 word"
  zp_now :: "32 word"
  zp_total :: "32 word"
  percent :: int
  err :: int
  err_buf :: string
  curl_err_buf :: string
  err_buf_len :: nat
  file_name :: string
  tmp_file :: "string option"
  pipe_fd :: int
  f :: bool
  out :: "8 word list"
  sha1_in :: "8 word list"

abbreviation buf_len :: "url_data_t \<Rightarrow> nat" where
  "buf_len d \<equiv> length (buf_data d)"

definition CURL_ERROR_SIZE :: nat where
  "CURL_ERROR_SIZE = 256"

text \<open>\<^verbatim>\<open>url_data_new\<close>, lines 694--717: a zeroed record with a sniff buffer of 256 bytes.\<close>

definition url_data_new :: url_data_t where
  "url_data_new = \<lparr> unzip = False, gzip = False, cramfs = False, flush = False,
     file_opened = False, label_shown = False, progress = False,
     buf_data = [], buf_max = 256, orig_name = None, image_size = 0,
     p_now = 0, p_total = 0, zp_now = 0, zp_total = 0, percent = - 1,
     err = 0, err_buf = [], curl_err_buf = [], err_buf_len = CURL_ERROR_SIZE,
     file_name = [], tmp_file = None, pipe_fd = - 1, f = False, out = [], sha1_in = [] \<rparr>"

text \<open>
  What the operating system answers during one call of \<^verbatim>\<open>url_write_cb\<close> or at the end
  of \<^verbatim>\<open>url_read\<close>: the descriptor and the name \<^verbatim>\<open>mkstemp\<close> gives, the descriptor \<^verbatim>\<open>open\<close>
  gives, whether \<^verbatim>\<open>popen\<close> and \<^verbatim>\<open>fopen\<close> return a stream, the text of \<^verbatim>\<open>strerror(errno)\<close>,
  the offset \<^verbatim>\<open>lseek\<close> reports, the status \<^verbatim>\<open>pclose\<close> or \<^verbatim>\<open>fclose\<close> returns, the bytes
  \<^verbatim>\<open>fread\<close> finds in the side file, and whether the machine is little-endian.
\<close>

record io_t =
  io_mkstemp :: int
  io_tmp_name :: string
  io_open :: int
  io_popen :: bool
  io_fopen :: bool
  io_strerror :: string
  io_lseek :: int
  io_close :: int
  io_stderr :: "8 word list"
  io_little_endian :: bool

section \<open>url_write_cb\<close>

definition char_of_byte :: "8 word \<Rightarrow> char" where
  "char_of_byte b = char_of (unat b)"

text \<open>\<^verbatim>\<open>(char *) p\<close> read as a C string: the bytes before the first NUL.\<close>

definition c_string :: "8 word list \<Rightarrow> string" where
  "c_string bs = map char_of_byte (takeWhile (\<lambda>b. b \<noteq> 0) bs)"

text \<open>\<^verbatim>\<open>snprintf(buf, n, ...)\<close> keeps at most \<open>n - 1\<close> characters.\<close>

definition snprintf :: "nat \<Rightarrow> string \<Rightarrow> string" where
  "snprintf n s = take (n - 1) s"

text \<open>
  \<^verbatim>\<open>sscanf(s, "%*s %d", &i)\<close> where it returns at least 1: white space, a word that is
  skipped, white space, then an optionally signed decimal number.  The result is the value
  of \<open>i\<close> afterwards, and \<open>None\<close> where \<^verbatim>\<open>sscanf\<close> returns 0 or \<^verbatim>\<open>EOF\<close>.  The number is
  converted as the C library does it: as \<^verbatim>\<open>strtol\<close> converts the digits, which limits the
  value to the range of a 64-bit \<^verbatim>\<open>long\<close>, and then stored in the \<^verbatim>\<open>int\<close>, which keeps the
  low 32 bits.
\<close>

definition dec_value :: "string \<Rightarrow> nat" where
  "dec_value ds = foldl (\<lambda>a c. a * 10 + digit_val c) 0 ds"

definition sscanf_word_int :: "string \<Rightarrow> int option" where
  "sscanf_word_int s =
     (let s1 = dropWhile isspace s;
          w = takeWhile (\<lambda>c. \<not> isspace c) s1;
          s2 = dropWhile isspace (dropWhile (\<lambda>c. \<not> isspace c) s1);
          neg = (s2 \<noteq> [] \<and> hd s2 = CHR ''-'');
          s3 = (if s2 \<noteq> [] \<and> (hd s2 = CHR ''-'' \<or> hd s2 = CHR ''+'') then tl s2 else s2);
          ds = takeWhile isdigit s3;
          v = int (dec_value ds);
          l = (if neg then max (- v) (- (2 ^ 63)) else min v (2 ^ 63 - 1))
      in if w = [] \<or> ds = [] then None else Some (sint (word_of_int l :: 32 word)))"

definition CRAMFS_SUPER_MAGIC :: "32 word" where
  "CRAMFS_SUPER_MAGIC = 0x28cd3d45"

definition CRAMFS_SUPER_MAGIC_BIG :: "32 word" where
  "CRAMFS_SUPER_MAGIC_BIG = 0x453dcd28"

text \<open>
  \<^verbatim>\<open>struct cramfs_super_block\<close>, lines 40--51, with 4-byte \<^verbatim>\<open>unsigned\<close>: 64 bytes, \<open>magic\<close>
  at offset 0 and \<open>name\<close> at offset 48.  \<open>magic\<close> is read in the byte order of the machine.
\<close>

definition sizeof_cramfs_sb :: nat where
  "sizeof_cramfs_sb = 64"

definition cramfs_magic :: "bool \<Rightarrow> 8 word list \<Rightarrow> 32 word" where
  "cramfs_magic little_endian bs =
     (let b = (if little_endian then take 4 bs else rev (take 4 bs))
      in ucast (b ! 0) OR push_bit 8 (ucast (b ! 1)) OR push_bit 16 (ucast (b ! 2)) OR
         push_bit 24 (ucast (b ! 3)))"

definition cramfs_name :: "8 word list \<Rightarrow> 8 word list" where
  "cramfs_name bs = take 16 (drop 48 bs)"

text \<open>Line 200: every chunk goes into the digest first.\<close>

definition url_write_digest :: "8 word list \<Rightarrow> url_data_t \<Rightarrow> url_data_t" where
  "url_write_digest buffer d = (if buffer \<noteq> [] then d\<lparr>sha1_in := sha1_in d @ buffer\<rparr> else d)"

text \<open>
  Lines 202--209: fill the sniff buffer.  \<open>url_write_take\<close> is \<open>z2\<close>, the number of bytes
  of the chunk that go into the buffer; the rest of the chunk is written through.
\<close>

definition url_write_take :: "8 word list \<Rightarrow> url_data_t \<Rightarrow> nat" where
  "url_write_take buffer d =
     (if buf_len d < buf_max d \<and> buffer \<noteq> []
      then min (buf_max d - buf_len d) (length buffer) else 0)"

definition url_write_fill :: "8 word list \<Rightarrow> url_data_t \<Rightarrow> url_data_t" where
  "url_write_fill buffer d =
     (if buf_len d < buf_max d \<and> buffer \<noteq> []
      then d\<lparr>buf_data := buf_data d @ take (url_write_take buffer d) buffer\<rparr>
      else d)"

text \<open>The condition of lines 211--214 under which the buffered bytes are sniffed.\<close>

definition url_write_sniffs :: "url_data_t \<Rightarrow> bool" where
  "url_write_sniffs d = ((buf_len d = buf_max d \<or> flush d) \<and> 11 \<le> buf_len d)"

text \<open>Lines 215--239: gzip or cramfs.\<close>

definition url_write_classify :: "io_t \<Rightarrow> url_data_t \<Rightarrow> url_data_t" where
  "url_write_classify io d =
     (if unzip d \<and> buf_data d ! 0 = 0x1f \<and> buf_data d ! 1 = 0x8b then
        (let d = d\<lparr>gzip := True\<rparr>
         in if buf_data d ! 3 AND 0x08 \<noteq> 0 then
              (let i = length (takeWhile (\<lambda>b. b \<noteq> 0) (drop 10 (buf_data d)))
               in if i < buf_len d - 10
                  then d\<lparr>orig_name := Some (c_string (drop 10 (buf_data d)))\<rparr>
                  else d)
            else d)
      else if sizeof_cramfs_sb < buf_len d then
        (if cramfs_magic (io_little_endian io) (buf_data d) = CRAMFS_SUPER_MAGIC \<or>
            cramfs_magic (io_little_endian io) (buf_data d) = CRAMFS_SUPER_MAGIC_BIG
         then d\<lparr>orig_name := Some (c_string (cramfs_name (buf_data d))), cramfs := True\<rparr>
         else d)
      else d)"

text \<open>
  Lines 241--248: the image size in kilobytes, from a name like \<^verbatim>\<open>rootfs 51200\<close>.  The
  \<^verbatim>\<open>int\<close> is tested for being positive and converted to the \<^verbatim>\<open>unsigned\<close> field.
\<close>

definition url_write_image_size :: "url_data_t \<Rightarrow> url_data_t" where
  "url_write_image_size d =
     (case orig_name d of
        None \<Rightarrow> d
      | Some name \<Rightarrow>
          (case sscanf_word_int name of
             None \<Rightarrow> d
           | Some i \<Rightarrow> if 0 < i then d\<lparr>image_size := word_of_int i\<rparr> else d))"

definition url_write_sniff :: "io_t \<Rightarrow> url_data_t \<Rightarrow> url_data_t" where
  "url_write_sniff io d =
     (if url_write_sniffs d then url_write_image_size (url_write_classify io d) else d)"

text \<open>Lines 259--295: open the output, through \<^verbatim>\<open>gzip -dc\<close> for a gzip stream.\<close>

definition url_write_open :: "io_t \<Rightarrow> url_data_t \<Rightarrow> url_data_t" where
  "url_write_open io d =
     (if \<not> file_opened d then
        (let d = d\<lparr>file_opened := True\<rparr>
         in if gzip d then
              (let d = d\<lparr>tmp_file := Some (io_tmp_name io)\<rparr>
               in if 0 < io_mkstemp io then
                    (if 0 \<le> io_open io then
                       d\<lparr>pipe_fd := io_open io, f := io_popen io,
                         zp_total := push_bit 10 (image_size d)\<rparr>
                     else
                       d\<lparr>err := 101,
                         err_buf := snprintf (err_buf_len d)
                           (''open: '' @ file_name d @ '': '' @ io_strerror io)\<rparr>)
                  else
                    d\<lparr>err := 1,
                      err_buf := snprintf (err_buf_len d) (''mkstemp: '' @ io_strerror io)\<rparr>)
            else
              (if io_fopen io then d\<lparr>f := True\<rparr>
               else d\<lparr>err := 101,
                      err_buf := snprintf (err_buf_len d)
                        (''open: '' @ file_name d @ '': '' @ io_strerror io)\<rparr>))
      else d)"

text \<open>Lines 297--311: write the buffer and the rest of the chunk, then drop the buffer.\<close>

definition url_write_out :: "8 word list \<Rightarrow> url_data_t \<Rightarrow> url_data_t" where
  "url_write_out rest d =
     (let d = (if f d \<and> buf_data d \<noteq> []
               then d\<lparr>out := out d @ buf_data d, p_now := p_now d + of_nat (buf_len d)\<rparr>
               else d);
          d = (if f d \<and> rest \<noteq> []
               then d\<lparr>out := out d @ rest, p_now := p_now d + of_nat (length rest)\<rparr>
               else d)
      in if buf_max d \<noteq> 0 then d\<lparr>buf_data := [], buf_max := 0\<rparr> else d)"

text \<open>Lines 314--317: the decompressed size so far is the offset of the output file.\<close>

definition url_write_seek :: "io_t \<Rightarrow> url_data_t \<Rightarrow> url_data_t" where
  "url_write_seek io d =
     (if 0 \<le> pipe_fd d \<and> io_lseek io \<noteq> - 1 then d\<lparr>zp_now := word_of_int (io_lseek io)\<rparr> else d)"

text \<open>Lines 258--312: once the buffer is full or the stream has ended, open and write.\<close>

definition url_write_store :: "io_t \<Rightarrow> 8 word list \<Rightarrow> url_data_t \<Rightarrow> url_data_t" where
  "url_write_store io rest d =
     (if buf_len d = buf_max d \<or> flush d then url_write_out rest (url_write_open io d) else d)"

text \<open>
  Lines 319--323: the progress callback, \<open>cb\<close>, at stage 1; a result other than 0 aborts
  the transfer with the error 102.
\<close>

definition url_write_notify :: "(url_data_t \<Rightarrow> int \<times> url_data_t) \<Rightarrow> url_data_t \<Rightarrow> url_data_t" where
  "url_write_notify cb d =
     (if (p_total d \<noteq> 0 \<or> zp_total d \<noteq> 0) \<and> progress d then
        (if fst (cb d) \<noteq> 0 \<and> err (snd (cb d)) = 0 then (snd (cb d))\<lparr>err := 102\<rparr> else snd (cb d))
      else d)"

text \<open>
  \<^verbatim>\<open>url_write_cb\<close>, lines 183--326, on the chunk \<open>buffer\<close> (empty for the calls with a
  NULL buffer at the end of \<^verbatim>\<open>url_read\<close>).  The result is the number the function returns
  and the new state.
\<close>

definition url_write_cb ::
  "io_t \<Rightarrow> (url_data_t \<Rightarrow> int \<times> url_data_t) \<Rightarrow> 8 word list \<Rightarrow> url_data_t \<Rightarrow> nat \<times> url_data_t" where
  "url_write_cb io cb buffer d =
     (let rest = drop (url_write_take buffer d) buffer;
          d = url_write_fill buffer (url_write_digest buffer d);
          d = url_write_sniff io d;
          d = url_write_store io rest d;
          d = url_write_seek io d;
          d = url_write_notify cb d
      in (if err d \<noteq> 0 then 0 else length buffer, d))"

section \<open>url_progress\<close>

text \<open>
  The percentage of lines 801--808.  The quotient is computed in \<^verbatim>\<open>uint64_t\<close> and stored in
  the \<^verbatim>\<open>int percent\<close>, which keeps its low 32 bits as a signed number (the conversion GCC
  defines); only then is it limited to 100.
\<close>

definition url_progress_percent :: "url_data_t \<Rightarrow> int" where
  "url_progress_percent d =
     (let percent =
            (if p_total d \<noteq> 0
             then sint (ucast ((100 * (ucast (p_now d) :: 64 word)) div ucast (p_total d)) :: 32 word)
             else if zp_total d \<noteq> 0
             then sint (ucast ((100 * (ucast (zp_now d) :: 64 word)) div ucast (zp_total d)) :: 32 word)
             else - 1)
      in if 100 < percent then 100 else percent)"

text \<open>What an update shows: a percentage, a number of kilobytes, or nothing new.\<close>

datatype shown = Percent int | KiloBytes int | Unchanged

text \<open>
  \<^verbatim>\<open>url_progress\<close> at stage 1, lines 799--877: the value shown and the new state.  The
  function always returns 0.
\<close>

definition url_progress_update :: "url_data_t \<Rightarrow> shown \<times> url_data_t" where
  "url_progress_update d =
     (let percent = url_progress_percent d;
          d = d\<lparr>label_shown := True\<rparr>
      in if 0 \<le> percent then
           (if percent \<noteq> url_data_t.percent d
            then (Percent percent, d\<lparr>percent := percent\<rparr>)
            else (Unchanged, d))
         else
           (let kb = sint (drop_bit 10 (if zp_now d \<noteq> 0 then zp_now d else p_now d))
            in if url_data_t.percent d + 100 < kb \<or> flush d
               then (KiloBytes kb, d\<lparr>percent := kb\<rparr>)
               else (Unchanged, d)))"

section \<open>The end of url_read\<close>

text \<open>\<^verbatim>\<open>WIFEXITED\<close> and \<^verbatim>\<open>WEXITSTATUS\<close> on the status \<^verbatim>\<open>pclose\<close> returns.\<close>

definition WIFEXITED :: "int \<Rightarrow> bool" where
  "WIFEXITED st = (st AND 0x7f = 0)"

definition WEXITSTATUS :: "int \<Rightarrow> int" where
  "WEXITSTATUS st = drop_bit 8 st AND 0xff"

text \<open>
  Lines 129--137: what has been read of the side file, as a C string, without the white space
  at its end (the first character stays) and at its beginning.
\<close>

definition url_read_stderr :: "nat \<Rightarrow> 8 word list \<Rightarrow> string" where
  "url_read_stderr n bytes =
     (let buf = c_string (take (n - 1) bytes);
          buf = (case buf of [] \<Rightarrow> [] | c # r \<Rightarrow> c # rev (dropWhile isspace (rev r)))
      in dropWhile isspace buf)"

text \<open>
  Lines 121--149: close the output and look at how the decompressor ended.  An exit code other
  than 0 and 2 is the error 103.  The text of the side file is copied to \<open>err_buf\<close> when no
  error was pending, and the \<^verbatim>\<open>snprintf\<close> that follows overwrites it.
\<close>

definition url_read_close :: "io_t \<Rightarrow> url_data_t \<Rightarrow> url_data_t" where
  "url_read_close io d =
     (if f d then
        (let d = d\<lparr>f := False\<rparr>
         in if 0 \<le> pipe_fd d then
              (let i = (if WIFEXITED (io_close io) then WEXITSTATUS (io_close io) else 0)
               in if i \<noteq> 0 \<and> i \<noteq> 2 then
                    (let d = (if tmp_file d \<noteq> None \<and> err d = 0
                              then d\<lparr>err_buf := url_read_stderr (err_buf_len d) (io_stderr io)\<rparr>
                              else d)
                     in d\<lparr>err := 103,
                          err_buf := snprintf (err_buf_len d) ''gzip: command terminated''\<rparr>)
                  else d)
            else (if io_close io \<noteq> 0 \<and> err d = 0 then d\<lparr>err := 104\<rparr> else d))
      else d)"

text \<open>Lines 159--162: with no message of its own, the error text is the one libcurl left.\<close>

definition url_read_message :: "url_data_t \<Rightarrow> url_data_t" where
  "url_read_message d =
     (if err_buf d = [] then d\<lparr>err_buf := curl_err_buf d, curl_err_buf := []\<rparr> else d)"

text \<open>
  The end of \<^verbatim>\<open>url_read\<close>, lines 114--164, after \<^verbatim>\<open>curl_easy_perform\<close>: the last chunk is
  flushed, the output is closed, the progress is brought up to date and the message chosen.
\<close>

definition url_read_finish ::
  "io_t \<Rightarrow> io_t \<Rightarrow> io_t \<Rightarrow> (url_data_t \<Rightarrow> int \<times> url_data_t) \<Rightarrow> url_data_t \<Rightarrow> url_data_t" where
  "url_read_finish io1 io2 io3 cb d =
     (let d = (if err d = 0 then snd (url_write_cb io1 cb [] (d\<lparr>flush := True\<rparr>)) else d);
          d = url_read_close io2 d;
          d = snd (url_write_cb io3 cb [] (d\<lparr>flush := False\<rparr>))
      in url_read_message d)"

text \<open>
  The progress callback \<^verbatim>\<open>url_read_file\<close> installs (line 1282) is \<^verbatim>\<open>url_progress\<close>; this
  is its call at stage 1.
\<close>

definition url_progress_cb1 :: "url_data_t \<Rightarrow> int \<times> url_data_t" where
  "url_progress_cb1 d = (0, snd (url_progress_update d))"

text \<open>
  \<^verbatim>\<open>url_progress_cb\<close>, lines 329--336: libcurl reports the total once it knows it.  The
  \<^verbatim>\<open>double\<close> is taken as the number it stands for.
\<close>

definition url_progress_cb :: "32 word \<Rightarrow> url_data_t \<Rightarrow> int \<times> url_data_t" where
  "url_progress_cb dltotal d =
     (let d = (if p_total d = 0 then d\<lparr>p_total := dltotal\<rparr> else d)
      in if progress d then url_progress_cb1 d else (0, d))"

text \<open>
  The states of one transfer: \<^verbatim>\<open>url_read_file\<close> sets up a fresh record (lines 1259--1283),
  libcurl hands over chunks and totals, and \<^verbatim>\<open>url_read\<close> sets and clears \<open>flush\<close>
  around its last two calls of \<^verbatim>\<open>url_write_cb\<close>.
\<close>

inductive transfer :: "url_data_t \<Rightarrow> bool" where
  start: "transfer (url_data_new\<lparr>unzip := u, progress := p, file_name := n\<rparr>)"
| chunk: "transfer d \<Longrightarrow> transfer (snd (url_write_cb io url_progress_cb1 buffer d))"
| total: "transfer d \<Longrightarrow> transfer (snd (url_progress_cb t d))"
| flushing: "transfer d \<Longrightarrow> transfer (d\<lparr>flush := b\<rparr>)"

section \<open>The mount orchestrator\<close>

text \<open>
  The part of the global \<^verbatim>\<open>config\<close> that \<^verbatim>\<open>url_setup_device\<close> reads and writes.  Modelled
  from the spec: \<^verbatim>\<open>config\<close> is declared in \<^verbatim>\<open>global.h\<close>, which is not part of the sources at
  hand; the fields are those \<^verbatim>\<open>url.c\<close> uses, the three address flags being the \<^verbatim>\<open>ok\<close> bits
  of \<^verbatim>\<open>hostname\<close>, \<^verbatim>\<open>netmask\<close> and \<^verbatim>\<open>broadcast\<close>.
\<close>

datatype net_conf = nc_none | nc_static | nc_dhcp | nc_bootp

record net_t =
  configured :: net_conf
  net_device :: "string option"
  net_hwaddr :: "string option"
  net_cardname :: "string option"
  net_unique_id :: "string option"
  use_dhcp :: bool
  hostname_ok :: bool
  netmask_ok :: bool
  broadcast_ok :: bool
  config_test :: bool

text \<open>
  The part of \<^verbatim>\<open>config\<close> that the acceptance test of \<^verbatim>\<open>url_find_repo\<close> reads and writes.
  Modelled from the spec: the fields are those lines 1398--1502 use; \<open>url_instsys\<close> and
  \<open>url_instsys2\<close> are the urls \<^verbatim>\<open>config.url.instsys\<close> and \<^verbatim>\<open>config.url.instsys2\<close> point to
  (\<open>None\<close> for NULL), \<open>xfonts\<close> is \<^verbatim>\<open>current_language()->xfonts\<close>, \<open>sha1\<close> the list of
  checksums.
\<close>

record config_t =
  url_instsys :: "url_t option"
  url_instsys2 :: "url_t option"
  mountpoint_instsys :: "string option"
  download_instsys :: bool
  rescue :: bool
  xfonts :: bool
  secure :: bool
  kexec :: bool
  sig_failed :: bool
  sha1_failed :: bool
  sha1 :: "(string \<times> string option) list"

text \<open>
  The calls the orchestrator makes into the operating system and into the transfer pipeline
  that matter for what is mounted, each with its result, in the order they are made.
\<close>

datatype event =
    Umount "string option" int
  | Mount_ro "string option" "string option" int
  | Mount_nfs "string option" "string option" "string option" int
  | Mount_smb "string option" "string option" "string option" int
  | Read_file "string option" string int
  | Unlink string

text \<open>
  The state the orchestrator works in: the calls made so far, the number of mountpoints and
  of download files handed out so far, and the two parts of \<^verbatim>\<open>config\<close>.
\<close>

record world =
  trace :: "event list"
  mp_count :: nat
  dl_count :: nat
  net :: net_t
  config :: config_t

text \<open>
  The collaborators of the orchestrator, as parameters: what each call returns, given the
  state it is made in.  \<^verbatim>\<open>util_umount\<close>, \<^verbatim>\<open>util_mount_ro\<close>, \<^verbatim>\<open>util_check_exist\<close> (0 or
  the type of the file, as a character), \<^verbatim>\<open>util_is_mountable\<close>, \<^verbatim>\<open>util_fstype\<close>,
  \<^verbatim>\<open>util_check_exist2\<close>, \<^verbatim>\<open>new_download\<close> (the name for a count), \<^verbatim>\<open>long_dev\<close> and
  \<^verbatim>\<open>blk_ident\<close> are in \<^verbatim>\<open>util.c\<close>; \<^verbatim>\<open>net_mount_nfs\<close>, \<^verbatim>\<open>net_mount_smb\<close>, \<^verbatim>\<open>wlan_setup\<close>,
  \<^verbatim>\<open>net_config_mask\<close>, \<^verbatim>\<open>net_dhcp\<close> and \<^verbatim>\<open>net_bootp\<close> (the three address flags they
  leave), \<^verbatim>\<open>net_activate_ns\<close>, \<^verbatim>\<open>name2inet\<close>, \<^verbatim>\<open>net_check_address2\<close> and
  \<^verbatim>\<open>match_netdevice\<close> in \<^verbatim>\<open>net.c\<close>; \<^verbatim>\<open>slp_get_install\<close> in \<^verbatim>\<open>slp.c\<close>.
  \<open>os_read_file\<close> is what the call of \<^verbatim>\<open>url_read_file\<close> on lines 1046--1052 returns; it
  works on a url of its own (\<^verbatim>\<open>file:/\<close>) and copies the file at the path to the
  download file.  \<open>os_url_read_file\<close> is what a call of \<^verbatim>\<open>url_read_file\<close> for a url, a
  source and a destination leaves: the result, the url afterwards (line 1352 rewrites its
  path when the source is NULL) and whether line 1313 has set \<^verbatim>\<open>config.sha1_failed\<close>.
  \<open>os_system\<close> is the exit status of a command, \<open>os_content_sha1\<close> the checksums that
  \<^verbatim>\<open>file_read_info_file\<close> (\<^verbatim>\<open>file.c\<close>) reads from the content file.
\<close>

datatype url_flag = URL_FLAG_UNZIP | URL_FLAG_PROGRESS | URL_FLAG_NOSHA1

record os_t =
  os_umount :: "world \<Rightarrow> string option \<Rightarrow> int"
  os_mount_ro :: "world \<Rightarrow> string option \<Rightarrow> string option \<Rightarrow> int"
  os_mount_nfs :: "world \<Rightarrow> string option \<Rightarrow> string option \<Rightarrow> string option \<Rightarrow> int"
  os_mount_smb :: "world \<Rightarrow> string option \<Rightarrow> url_t \<Rightarrow> int"
  os_check_exist :: "world \<Rightarrow> string option \<Rightarrow> char"
  os_is_mountable :: "world \<Rightarrow> string option \<Rightarrow> bool"
  os_check_exist2 :: "world \<Rightarrow> string option \<Rightarrow> string option \<Rightarrow> char"
  os_read_file :: "world \<Rightarrow> string option \<Rightarrow> string \<Rightarrow> int"
  os_url_read_file ::
    "world \<Rightarrow> url_t \<Rightarrow> string option \<Rightarrow> string \<Rightarrow> url_flag list \<Rightarrow> int \<times> url_t \<times> bool"
  os_system :: "world \<Rightarrow> string \<Rightarrow> int"
  os_content_sha1 :: "world \<Rightarrow> (string \<times> string option) list"
  os_new_download :: "nat \<Rightarrow> string"
  os_long_dev :: "string \<Rightarrow> string"
  os_blk_ident :: "string option \<Rightarrow> string"
  os_fstype :: "world \<Rightarrow> string \<Rightarrow> string option"
  os_wlan_setup :: "world \<Rightarrow> int"
  os_net_config_mask :: "world \<Rightarrow> 32 word"
  os_net_answer :: "world \<Rightarrow> bool \<times> bool \<times> bool"
  os_net_activate_ns :: "world \<Rightarrow> int"
  os_slp_get_install :: "world \<Rightarrow> url_t \<Rightarrow> string option"
  os_name2inet :: "world \<Rightarrow> string option \<Rightarrow> string option"
  os_net_check_address2 :: "world \<Rightarrow> string option \<Rightarrow> int"
  os_match_netdevice :: "string option \<Rightarrow> string option \<Rightarrow> string option \<Rightarrow> bool"

definition ENOENT :: int where "ENOENT = 2"
definition ENOTDIR :: int where "ENOTDIR = 20"

definition log_event :: "event \<Rightarrow> world \<Rightarrow> world" where
  "log_event e w = w\<lparr>trace := trace w @ [e]\<rparr>"

definition util_umount :: "os_t \<Rightarrow> string option \<Rightarrow> world \<Rightarrow> int \<times> world" where
  "util_umount os dir w = (os_umount os w dir, log_event (Umount dir (os_umount os w dir)) w)"

definition util_mount_ro :: "os_t \<Rightarrow> string option \<Rightarrow> string option \<Rightarrow> world \<Rightarrow> int \<times> world" where
  "util_mount_ro os dev dir w =
     (os_mount_ro os w dev dir, log_event (Mount_ro dev dir (os_mount_ro os w dev dir)) w)"

definition net_mount_nfs ::
  "os_t \<Rightarrow> string option \<Rightarrow> string option \<Rightarrow> string option \<Rightarrow> world \<Rightarrow> int \<times> world" where
  "net_mount_nfs os dir srv p w =
     (os_mount_nfs os w dir srv p, log_event (Mount_nfs dir srv p (os_mount_nfs os w dir srv p)) w)"

definition net_mount_smb :: "os_t \<Rightarrow> string option \<Rightarrow> url_t \<Rightarrow> world \<Rightarrow> int \<times> world" where
  "net_mount_smb os dir url w =
     (os_mount_smb os w dir url,
      log_event (Mount_smb dir (used_server url) (share url) (os_mount_smb os w dir url)) w)"

text \<open>
  \<^verbatim>\<open>new_mountpoint\<close> and \<^verbatim>\<open>new_download\<close>. Modelled from the spec: both are in \<^verbatim>\<open>util.c\<close>;
  the spec has mountpoints uniquely allocated per use, a fresh path each time.  The model
  numbers the mountpoints: the name of a mountpoint is the scratch directory and the decimal
  number of the calls made before.
\<close>

definition mountpoint_name :: "nat \<Rightarrow> string" where
  "mountpoint_name k = ''/mounts/mp_'' @ dec_fuel (Suc k) k"

definition new_mountpoint :: "world \<Rightarrow> string \<times> world" where
  "new_mountpoint w = (mountpoint_name (mp_count w), w\<lparr>mp_count := Suc (mp_count w)\<rparr>)"

definition new_download :: "os_t \<Rightarrow> world \<Rightarrow> string \<times> world" where
  "new_download os w = (os_new_download os (dl_count w), w\<lparr>dl_count := Suc (dl_count w)\<rparr>)"

text \<open>\<^verbatim>\<open>dir ?: new_mountpoint()\<close>.\<close>

definition dir_or_new :: "string option \<Rightarrow> world \<Rightarrow> string \<times> world" where
  "dir_or_new dir w = (case dir of Some d \<Rightarrow> (d, w) | None \<Rightarrow> new_mountpoint w)"

text \<open>
  \<^verbatim>\<open>url_umount\<close>, lines 884--894, for a url that is not NULL.  The first test clears the
  field when unmounting succeeded, the second when it failed.
\<close>

definition url_umount :: "os_t \<Rightarrow> url_t \<Rightarrow> world \<Rightarrow> url_t \<times> world" where
  "url_umount os url w =
     (let (r1, w) = util_umount os (mount url) w;
          url = (if r1 = 0 then url\<lparr>mount := None\<rparr> else url);
          (r2, w) = util_umount os (tmp_mount url) w;
          url = (if r2 \<noteq> 0 then url\<lparr>tmp_mount := None\<rparr> else url)
      in (url, w))"

text \<open>
  \<^verbatim>\<open>url_setup_device\<close>, lines 1598--1747, for a url that is not NULL: the result, the url
  (which the SLP branch rewrites) and the state, or \<open>None\<close> when \<^verbatim>\<open>url_set\<close> dereferences a
  NULL pointer.  The first part is the interface setup up to \<^verbatim>\<open>net_activate_ns\<close>.
\<close>

definition url_setup_interface :: "os_t \<Rightarrow> url_t \<Rightarrow> world \<Rightarrow> bool \<times> world" where
  "url_setup_interface os url w =
     (let w = w\<lparr>net := (net w)\<lparr>configured := nc_none, net_device := used_device url,
                 net_hwaddr := used_hwaddr url, net_cardname := used_model url,
                 net_unique_id := used_unique_id url\<rparr>\<rparr>
      in if is_wlan url \<and> os_wlan_setup os w \<noteq> 0 then (False, w)
         else
           (let w = w\<lparr>net := (net w)\<lparr>configured := nc_static\<rparr>\<rparr>;
                (ok, w) =
                  (if os_net_config_mask os w AND 3 \<noteq> 3 then
                     (case os_net_answer os w of (h, n, b) \<Rightarrow>
                        (let w = w\<lparr>net := (net w)\<lparr>hostname_ok := h, netmask_ok := n,
                                    broadcast_ok := b\<rparr>\<rparr>
                         in if \<not> config_test (net w) \<and> (\<not> h \<or> \<not> n \<or> \<not> b)
                            then (False, w\<lparr>net := (net w)\<lparr>configured := nc_none\<rparr>\<rparr>)
                            else (True, w\<lparr>net := (net w)\<lparr>configured :=
                                    (if use_dhcp (net w) then nc_dhcp else nc_bootp)\<rparr>\<rparr>)))
                   else (True, w))
            in if \<not> ok then (False, w)
               else if os_net_activate_ns os w \<noteq> 0
               then (False, w\<lparr>net := (net w)\<lparr>configured := nc_none\<rparr>\<rparr>)
               else (True, w)))"

text \<open>Lines 1691--1716: an SLP url is replaced by the one the service announces.\<close>

definition url_setup_slp :: "url_env \<Rightarrow> os_t \<Rightarrow> url_t \<Rightarrow> world \<Rightarrow> (bool \<times> url_t) option" where
  "url_setup_slp env os url w =
     (if scheme url = inst_slp then
        (case url_set env (os_slp_get_install os w url) of
           None \<Rightarrow> None
         | Some tmp_url \<Rightarrow>
             if scheme tmp_url = 0 then Some (False, url)
             else Some (True,
               url\<lparr>scheme := scheme tmp_url, port := port tmp_url, str := str tmp_url,
                   path := path tmp_url, server := server tmp_url, share := share tmp_url,
                   user := user tmp_url, password := password tmp_url,
                   domain := domain tmp_url, device := device tmp_url,
                   instsys := instsys tmp_url\<rparr>))
      else Some (True, url))"

definition url_setup_device ::
  "url_env \<Rightarrow> os_t \<Rightarrow> url_t \<Rightarrow> world \<Rightarrow> (int \<times> url_t \<times> world) option" where
  "url_setup_device env os url w =
     (if scheme url = inst_file then Some (1, url, w)
      else if used_device url = None then Some (0, url, w)
      else if \<not> is_network url then
        (case os_fstype os w (the (used_device url)) of
           Some t \<Rightarrow> Some (if t \<noteq> ''swap'' then 1 else 0, url, w)
         | None \<Rightarrow> Some (0, url, w))
      else if configured (net w) \<noteq> nc_none \<and> net_device (net w) \<noteq> None \<and>
              used_device url = net_device (net w) then Some (1, url, w)
      else if take 2 (the (used_device url)) = ''lo'' \<or> take 3 (the (used_device url)) = ''sit''
      then Some (0, url, w)
      else
        (case url_setup_interface os url w of
           (False, w) \<Rightarrow> Some (0, url, w)
         | (True, w) \<Rightarrow>
             (case url_setup_slp env os url w of
                None \<Rightarrow> None
              | Some (False, url) \<Rightarrow> Some (0, url, w)
              | Some (True, url) \<Rightarrow>
                  (let url = url\<lparr>used_server := os_name2inet os w (server url)\<rparr>
                   in if os_net_check_address2 os w (used_server url) \<noteq> 0
                      then Some (0, url, w\<lparr>net := (net w)\<lparr>configured := nc_none\<rparr>\<rparr>)
                      else Some (1, url, w)))))"

text \<open>
  Lines 936--961, a local device: the extra mountpoint, and the path to look at.  The result is
  \<open>Inl\<close> where the function returns at once (the extra mount failed), \<open>Inr\<close> with the
  path otherwise.
\<close>

definition url_mount_local_path :: "url_t \<Rightarrow> string option" where
  "url_mount_local_path url =
     (if scheme url = inst_file then path url
      else if tmp_mount url \<noteq> None then Some (print_s (tmp_mount url) @ print_s (path url))
      else used_device url)"

definition url_mount_local ::
  "os_t \<Rightarrow> url_t \<Rightarrow> world \<Rightarrow> (url_t \<times> world) + (string option \<times> url_t \<times> world)" where
  "url_mount_local os url w =
     (if scheme url \<noteq> inst_file \<and> path url \<noteq> Some ''/'' then
        (let (mp, w) = new_mountpoint w;
             url = url\<lparr>tmp_mount := Some mp\<rparr>;
             (r, w) = util_mount_ro os (used_device url) (tmp_mount url) w
         in if r \<noteq> 0 then Inl (url\<lparr>tmp_mount := None\<rparr>, w)
            else Inr (url_mount_local_path url, url, w))
      else Inr (url_mount_local_path url, url, w))"

text \<open>
  Lines 972--987, the second attempt of NFS: with a path \<open>p\<close> that has a slash which is not
  its first character and is followed by something, the part before that slash is mounted at
  a new mountpoint, and the part behind it is the file to look at there.
\<close>

definition url_mount_nfs_retry ::
  "os_t \<Rightarrow> int \<Rightarrow> string \<Rightarrow> url_t \<Rightarrow> world \<Rightarrow> int \<times> string option \<times> url_t \<times> world" where
  "url_mount_nfs_retry os err' p url w =
     (case strrchr_cut CHR ''/'' p of
        Some (buf, s) \<Rightarrow>
          if buf \<noteq> [] \<and> s \<noteq> [] then
            (let (mp, w) = new_mountpoint w;
                 url = url\<lparr>tmp_mount := Some mp\<rparr>;
                 (err', w) = net_mount_nfs os (tmp_mount url) (used_server url) (Some buf) w
             in if err' \<noteq> 0 then (err', None, url\<lparr>tmp_mount := None\<rparr>, w)
                else (err', Some (mp @ ''/'' @ s), url, w))
          else (err', None, url, w)
      | None \<Rightarrow> (err', None, url, w))"

text \<open>
  Lines 966--992, NFS: mount the path; when that fails with \<^verbatim>\<open>ENOTDIR\<close> or \<^verbatim>\<open>ENOENT\<close>,
  try the directory above.  The result is \<open>err\<close>, the path to look at, the url and the
  state, or \<open>None\<close> when \<^verbatim>\<open>strrchr\<close> is handed a NULL path.
\<close>

definition url_mount_nfs ::
  "os_t \<Rightarrow> string option \<Rightarrow> url_t \<Rightarrow> world \<Rightarrow> (int \<times> string option \<times> url_t \<times> world) option" where
  "url_mount_nfs os dir url w =
     (let (mp, w) = dir_or_new dir w;
          url = url\<lparr>mount := Some mp\<rparr>;
          (err', w) = net_mount_nfs os (mount url) (used_server url) (path url) w
      in if err' = ENOTDIR \<or> err' = ENOENT then
           (case path url of
              None \<Rightarrow> None
            | Some p \<Rightarrow> Some (url_mount_nfs_retry os err' p (url\<lparr>mount := None\<rparr>) w))
         else if err' = 0 then Some (err', mount url, url, w)
         else Some (err', None, url, w))"

text \<open>
  Lines 994--1017, SMB: the share is mounted at the mountpoint, or at an extra one when a
  path within the share is asked for.  \<open>None\<close> when \<^verbatim>\<open>strcmp\<close> is handed a NULL path.
\<close>

definition url_mount_smb ::
  "os_t \<Rightarrow> string option \<Rightarrow> url_t \<Rightarrow> world \<Rightarrow> (int \<times> string option \<times> url_t \<times> world) option" where
  "url_mount_smb os dir url w =
     (if path url = None then None
      else
        (let (s, url, w) =
               (if path url \<noteq> Some ''/'' then
                  (let (mp, w) = new_mountpoint w
                   in (Some mp, url\<lparr>tmp_mount := Some mp\<rparr>, w))
                else
                  (let (mp, w) = dir_or_new dir w
                   in (Some mp, url\<lparr>mount := Some mp\<rparr>, w)));
             (err', w) = net_mount_smb os s url w
         in if err' \<noteq> 0 then Some (err', None, url\<lparr>tmp_mount := None, mount := None\<rparr>, w)
            else Some (err',
                       if mount url \<noteq> None then mount url
                       else Some (print_s (tmp_mount url) @ print_s (path url)),
                       url, w)))"

text \<open>Lines 965--1027: the network schemes.\<close>

definition url_mount_network ::
  "os_t \<Rightarrow> string option \<Rightarrow> url_t \<Rightarrow> world \<Rightarrow> (int \<times> string option \<times> url_t \<times> world) option" where
  "url_mount_network os dir url w =
     (if scheme url = inst_nfs then url_mount_nfs os dir url w
      else if scheme url = inst_smb then url_mount_smb os dir url w
      else if scheme url = inst_http \<or> scheme url = inst_ftp then Some (0, None, url, w)
      else Some (1, None, url, w))"

text \<open>
  Lines 1031--1076, reached with \<open>err = 0\<close>: look at the path and mount it, directly or,
  for a plain file or a block device that is not mountable or is to be downloaded, as a copy.
\<close>

definition url_mount_path ::
  "os_t \<Rightarrow> string option \<Rightarrow> string option \<Rightarrow> url_t \<Rightarrow> world \<Rightarrow> int \<times> url_t \<times> world" where
  "url_mount_path os dir p url w =
     (if is_mountable url then
        (let file_type = os_check_exist os w p;
             url = (if file_type = CHR ''r'' then url\<lparr>is_file := True\<rparr> else url)
         in if file_type \<noteq> CHR 0x00 then
              (if (file_type = CHR ''r'' \<or> file_type = CHR ''b'') \<and>
                  (download url \<or> \<not> os_is_mountable os w p) then
                 (let (mp, w) = dir_or_new dir w;
                      url = url\<lparr>mount := Some mp\<rparr>;
                      (s, w) = new_download os w;
                      r = os_read_file os w p s;
                      w = log_event (Read_file p s r) w;
                      (ok, w) = (if r = 0
                                 then (case util_mount_ro os (Some s) (mount url) w of
                                         (r2, w) \<Rightarrow> (if r2 \<noteq> 0 then 0 else 1, w))
                                 else (0 :: int, w));
                      w = (if ok = 0 then log_event (Unlink s) w else w)
                  in (ok, url, w))
               else if mount url = None then
                 (let (mp, w) = dir_or_new dir w;
                      url = url\<lparr>mount := Some mp\<rparr>;
                      (r, w) = util_mount_ro os p (mount url) w
                  in (if r \<noteq> 0 then 0 else 1, url, w))
               else (1, url, w))
            else (0, url, w))
      else (1, url, w))"

text \<open>
  The acceptance test \<^verbatim>\<open>int (*test_func)(url_t *)\<close>: it is handed the url, which it may
  change, and works in the same state as the orchestrator; \<open>None\<close> is the NULL pointer.
\<close>

type_synonym test_func_t = "url_t \<Rightarrow> world \<Rightarrow> int \<times> url_t \<times> world"

text \<open>
  Lines 1079--1096: the acceptance test, and the unwinding when the result is 0.  What
  \<^verbatim>\<open>util_umount\<close> returns is not looked at.
\<close>

definition url_mount_finish ::
  "os_t \<Rightarrow> test_func_t option \<Rightarrow> int \<Rightarrow> url_t \<Rightarrow> world \<Rightarrow> int \<times> url_t \<times> world" where
  "url_mount_finish os test_func ok url w =
     (let (ok, url, w) = (if ok \<noteq> 0 \<and> test_func \<noteq> None then the test_func url w
                          else (ok, url, w))
      in if ok = 0 then
           (let (r1, w) = util_umount os (mount url) w;
                (r2, w) = util_umount os (tmp_mount url) w
            in (ok, url\<lparr>tmp_mount := None, mount := None\<rparr>, w))
         else (ok, url, w))"

text \<open>The guard of lines 923--928, for a url that is not NULL.\<close>

definition url_mount_disk_guard :: "url_t \<Rightarrow> bool" where
  "url_mount_disk_guard url =
     (scheme url = 0 \<or> path url = None \<or> (used_device url = None \<and> scheme url \<noteq> inst_file))"

text \<open>
  \<^verbatim>\<open>url_mount_disk\<close>, lines 914--1101, for a url that is not NULL: the result (0 failed,
  1 ok, 2 ok but continue the search), the url and the state, or \<open>None\<close> when a NULL pointer
  is dereferenced.
\<close>

definition url_mount_disk ::
  "url_env \<Rightarrow> os_t \<Rightarrow> test_func_t option \<Rightarrow> string option \<Rightarrow> url_t \<Rightarrow> world \<Rightarrow>
     (int \<times> url_t \<times> world) option" where
  "url_mount_disk env os test_func dir url w =
     (if url_mount_disk_guard url then Some (0, url, w)
      else
        (let (url, w) = url_umount os url w;
             url = url\<lparr>tmp_mount := None, mount := None\<rparr>
         in case url_setup_device env os url w of
              None \<Rightarrow> None
            | Some (r, url, w) \<Rightarrow>
                if r = 0 then Some (0, url, w)
                else if \<not> is_network url then
                  (case url_mount_local os url w of
                     Inl (url, w) \<Rightarrow> Some (0, url, w)
                   | Inr (p, url, w) \<Rightarrow>
                       (case url_mount_path os dir p url w of
                          (ok, url, w) \<Rightarrow> Some (url_mount_finish os test_func ok url w)))
                else
                  (case url_mount_network os dir url w of
                     None \<Rightarrow> None
                   | Some (err', p, url, w) \<Rightarrow>
                       if err' = 0 then
                         (case url_mount_path os dir p url w of
                            (ok, url, w) \<Rightarrow> Some (url_mount_finish os test_func ok url w))
                       else Some (url_mount_finish os test_func 0 url w))))"

text \<open>
  A device of the hardware list, as \<^verbatim>\<open>url_mount\<close> reads it.  Modelled from the spec: \<^verbatim>\<open>hd_t\<close>
  belongs to the hardware library; \<open>hd_hwaddr\<close> is the first hardware address among the
  resources, \<open>hd_floppy\<close> and \<open>hd_cdrom\<close> stand for \<^verbatim>\<open>hd_is_hw_class\<close>, and \<open>child_ids\<close>
  tells whether the device has partitions.
\<close>

record hd_t =
  unix_dev_name :: "string option"
  unix_dev_names :: "string list"
  hd_hwaddr :: "string option"
  hd_floppy :: bool
  hd_cdrom :: bool
  child_ids :: bool
  hd_model :: "string option"
  hd_unique_id :: "string option"
  hd_wlan :: bool

datatype hw_item = hw_network_ctrl | hw_cdrom | hw_floppy | hw_block

text \<open>Lines 1162--1183: does the loop skip this device?\<close>

definition url_mount_skips :: "url_env \<Rightarrow> os_t \<Rightarrow> url_t \<Rightarrow> hd_t \<Rightarrow> bool" where
  "url_mount_skips env os url h =
     (((scheme url = inst_hd \<or> scheme url = inst_disk) \<and>
       (hd_floppy h \<or> hd_cdrom h \<or> child_ids h)) \<or>
      unix_dev_name h = None \<or>
      \<not> ((if device url \<noteq> None
           then os_match_netdevice os (short_dev env (unix_dev_name h)) (hd_hwaddr h) (device url)
           else True) \<or>
          (\<exists>n \<in> set (unix_dev_names h).
             os_match_netdevice os (short_dev env (Some n)) None (device url))))"

text \<open>Lines 1185--1196: the device is written into the url.\<close>

definition url_mount_use :: "os_t \<Rightarrow> hd_t \<Rightarrow> url_t \<Rightarrow> url_t" where
  "url_mount_use os h url =
     url\<lparr>used_unique_id := hd_unique_id h, used_device := unix_dev_name h,
         used_hwaddr := hd_hwaddr h,
         used_model := (if hd_model h = Some ''Partition''
                        then Some (''Partition: '' @ os_blk_ident os (unix_dev_name h))
                        else hd_model h),
         is_wlan := hd_wlan h\<rparr>"

text \<open>
  The loop of lines 1154--1206 over the hardware list: the url, the state, \<open>found\<close> and
  \<open>err\<close> when it ends.
\<close>

fun url_mount_loop ::
  "url_env \<Rightarrow> os_t \<Rightarrow> test_func_t option \<Rightarrow> string option \<Rightarrow> hd_t list \<Rightarrow>
     url_t \<Rightarrow> world \<Rightarrow> nat \<Rightarrow> int \<Rightarrow> (url_t \<times> world \<times> nat \<times> int) option" where
  "url_mount_loop env os test_func dir [] url w found err' = Some (url, w, found, err')"
| "url_mount_loop env os test_func dir (h # hds) url w found err' =
     (if url_mount_skips env os url h
      then url_mount_loop env os test_func dir hds url w found err'
      else
        (case url_mount_disk env os test_func dir (url_mount_use os h url) w of
           None \<Rightarrow> None
         | Some (ok, url, w) \<Rightarrow>
             if ok \<noteq> 0 then
               (let url = (if hd_cdrom h then url\<lparr>is_cdrom := True\<rparr> else url)
                in if ok = 1 then Some (url, w, Suc found, err')
                   else url_mount_loop env os test_func dir hds url w (Suc found) err')
             else url_mount_loop env os test_func dir hds url w found 1))"

text \<open>Lines 1138--1152: the class of hardware to look through.\<close>

definition url_mount_hw_item :: "url_t \<Rightarrow> hw_item" where
  "url_mount_hw_item url =
     (if \<not> is_network url then
        (if scheme url = inst_cdrom then hw_cdrom
         else if scheme url = inst_floppy then hw_floppy
         else hw_block)
      else hw_network_ctrl)"

definition url_clear_used :: "url_t \<Rightarrow> url_t" where
  "url_clear_used url =
     url\<lparr>used_device := None, used_model := None, used_hwaddr := None, used_unique_id := None\<rparr>"

text \<open>
  \<^verbatim>\<open>url_mount\<close>, lines 1116--1225, for a url that is not NULL: 0 is success, 1 failure.
  \<open>hd_data\<close> tells whether \<^verbatim>\<open>config.hd_data\<close> is set after \<^verbatim>\<open>update_device_list\<close>,
  \<open>hd_list\<close> is the hardware list for a class.
\<close>

definition url_mount ::
  "url_env \<Rightarrow> os_t \<Rightarrow> bool \<Rightarrow> (hw_item \<Rightarrow> hd_t list) \<Rightarrow> test_func_t option \<Rightarrow>
     string option \<Rightarrow> url_t \<Rightarrow> world \<Rightarrow> (int \<times> url_t \<times> world) option" where
  "url_mount env os hd_data hd_list test_func dir url w =
     (if scheme url = 0 then Some (1, url, w)
      else if \<not> hd_data then Some (1, url, w)
      else if scheme url = inst_file \<or> used_device url \<noteq> None then
        (case url_mount_disk env os test_func dir url w of
           None \<Rightarrow> None
         | Some (ok, url, w) \<Rightarrow> Some (if ok \<noteq> 0 then 0 else 1, url, w))
      else
        (case url_mount_loop env os test_func dir (hd_list (url_mount_hw_item url)) url w 0 0 of
           None \<Rightarrow> None
         | Some (url, w, found, err') \<Rightarrow>
             (case (if err' = 0 \<and> found = 0 \<and> used_device url = None \<and> device url \<noteq> None then
                      (case url_mount_disk env os test_func dir
                              ((url_clear_used url)
                                 \<lparr>used_device := Some (os_long_dev os (the (device url)))\<rparr>) w of
                         None \<Rightarrow> None
                       | Some (ok, url, w) \<Rightarrow> Some (if ok \<noteq> 0 then 0 else 1 :: int, url, w))
                    else Some (err', url, w)) of
                None \<Rightarrow> None
              | Some (err', url, w) \<Rightarrow>
                  Some (if found \<noteq> 0 then 0 else err',
                        if err' \<noteq> 0 then url_clear_used url else url, w))))"

section \<open>The acceptance test of url_find_repo\<close>

text \<open>
  \<^verbatim>\<open>url_read_file\<close>, lines 1236--1380, as \<^verbatim>\<open>test_is_repo\<close> uses it: with no directory to
  mount at, and for a url that is mounted or is not mountable (line 1406 has returned
  otherwise), so that lines 1359--1370 do not call \<^verbatim>\<open>url_mount\<close> and nothing is mounted or
  unmounted.  The label is only shown.  What the transfer does is the collaborator
  \<open>os_url_read_file\<close>.
\<close>

definition url_read_file ::
  "os_t \<Rightarrow> url_t \<Rightarrow> string option \<Rightarrow> string \<Rightarrow> url_flag list \<Rightarrow> world \<Rightarrow> int \<times> url_t \<times> world" where
  "url_read_file os url src dst flags w =
     (case os_url_read_file os w url src dst flags of
        (err', url, sha1_bad) \<Rightarrow>
          (err', url,
           log_event (Read_file src dst err')
             (if sha1_bad then w\<lparr>config := (config w)\<lparr>sha1_failed := True\<rparr>\<rparr> else w)))"

text \<open>
  Lines 1412--1427, secure mode: the signature of the content file is fetched and checked.
  \<^verbatim>\<open>strprintf\<close> writes the formatted text to the buffer, as everywhere in \<^verbatim>\<open>url.c\<close>, so
  line 1415 replaces the command.  The result is \<open>False\<close> where the function returns 0.
\<close>

definition gpg_command :: "url_env \<Rightarrow> string" where
  "gpg_command env =
     (if config_debug env < 2 then '' 2>&1''
      else ''gpg --homedir /root/.gnupg --batch --no-default-keyring --keyring /installkey.gpg --verify /content.asc >/dev/null'')"

definition test_is_repo_secure ::
  "url_env \<Rightarrow> os_t \<Rightarrow> url_t \<Rightarrow> world \<Rightarrow> bool \<times> url_t \<times> world" where
  "test_is_repo_secure env os url w =
     (if secure (config w) then
        (let (err', url, w) =
               url_read_file os url (Some ''/content.asc'') ''/content.asc'' [URL_FLAG_NOSHA1] w
         in if err' \<noteq> 0 then (False, url, w)
            else
              (let i = os_system os w (gpg_command env);
                   w = (if i \<noteq> 0 then w\<lparr>config := (config w)\<lparr>sig_failed := True\<rparr>\<rparr>
                        else w\<lparr>config := (config w)\<lparr>sha1_failed := False\<rparr>\<rparr>);
                   w = w\<lparr>config := (config w)\<lparr>sha1 := os_content_sha1 os w\<rparr>\<rparr>
               in (True, url, w)))
      else (True, url, w))"

text \<open>
  Lines 1440--1461 and 1468--1488: the image \<open>buf\<close> within the repository is mounted at
  the target, or the file \<open>src\<close> is copied to a new download file and that is mounted.
  \<open>ok\<close> is the value the variable has before: it is kept when the copy fails.
\<close>

definition test_is_repo_mount ::
  "os_t \<Rightarrow> int \<Rightarrow> url_t \<Rightarrow> string option \<Rightarrow> string option \<Rightarrow> string option \<Rightarrow> world \<Rightarrow>
     int \<times> url_t \<times> world" where
  "test_is_repo_mount os ok url buf src target w =
     (if \<not> download_instsys (config w) \<and> \<not> rescue (config w) \<and> is_mountable url \<and>
         os_is_mountable os w buf then
        (case util_mount_ro os buf target w of (r, w) \<Rightarrow> (if r \<noteq> 0 then 0 else 1, url, w))
      else
        (let (s, w) = new_download os w;
             (err', url, w) =
               url_read_file os url src s [URL_FLAG_PROGRESS, URL_FLAG_UNZIP] w
         in if err' = 0 then
              (case util_mount_ro os (Some s) target w of
                 (r, w) \<Rightarrow> (if r \<noteq> 0 then 0 else 1, url, w))
            else (ok, url, w)))"

text \<open>
  Lines 1463--1492: with the instsys mounted, its url gets the mountpoint, and the second
  image is mounted at a new mountpoint.  When that fails the mountpoint is taken from the
  second url again; the instsys stays as it is.
\<close>

definition test_is_repo_instsys2 ::
  "os_t \<Rightarrow> bool \<Rightarrow> url_t \<Rightarrow> string option \<Rightarrow> world \<Rightarrow> int \<times> url_t \<times> world" where
  "test_is_repo_instsys2 os get_instsys2 url buf w =
     (let w = w\<lparr>config := (config w)\<lparr>url_instsys :=
                 map_option (\<lambda>u. u\<lparr>mount := mountpoint_instsys (config w)\<rparr>)
                   (url_instsys (config w))\<rparr>\<rparr>
      in if get_instsys2 then
           (let (mp, w) = new_mountpoint w;
                w = w\<lparr>config := (config w)\<lparr>url_instsys2 :=
                      map_option (\<lambda>u. u\<lparr>mount := Some mp\<rparr>) (url_instsys2 (config w))\<rparr>\<rparr>;
                (ok, url, w) =
                  test_is_repo_mount os 1 url buf
                    (path (the (url_instsys2 (config w)))) (mount (the (url_instsys2 (config w)))) w;
                w = (if ok = 0
                     then w\<lparr>config := (config w)\<lparr>url_instsys2 :=
                            map_option (\<lambda>u. u\<lparr>mount := None\<rparr>) (url_instsys2 (config w))\<rparr>\<rparr>
                     else w)
            in (ok, url, w))
         else (1, url, w))"

text \<open>
  \<^verbatim>\<open>test_is_repo\<close>, lines 1398--1502, for a url that is not NULL: 0 failed, 1 ok.
  \<open>get_instsys2\<close> is fixed when the function is entered.
\<close>

definition test_is_repo :: "url_env \<Rightarrow> os_t \<Rightarrow> url_t \<Rightarrow> world \<Rightarrow> int \<times> url_t \<times> world" where
  "test_is_repo env os url w =
     (let get_instsys2 =
            (url_instsys2 (config w) \<noteq> None \<and> \<not> rescue (config w) \<and> xfonts (config w))
      in if (mount url = None \<and> is_mountable url) \<or> url_instsys (config w) = None \<or>
            scheme (the (url_instsys (config w))) = 0
         then (0, url, w)
         else
           (let w = w\<lparr>config := (config w)\<lparr>sha1 := []\<rparr>\<rparr>;
                (err', url, w) =
                  url_read_file os url (Some ''/content'') ''/content'' [URL_FLAG_NOSHA1] w
            in if err' \<noteq> 0 then (0, url, w)
               else
                 (case test_is_repo_secure env os url w of
                    (False, url, w) \<Rightarrow> (0, url, w)
                  | (True, url, w) \<Rightarrow>
                      if scheme (the (url_instsys (config w))) \<noteq> inst_rel \<or> kexec (config w)
                      then (1, url, w)
                      else if is_mountable url \<and>
                              os_check_exist2 os w (mount url)
                                (path (the (url_instsys (config w)))) = CHR 0x00
                      then (0, url, w)
                      else
                        (let buf = (if is_mountable url
                                    then Some (print_s (mount url) @ ''/'' @
                                               print_s (path (the (url_instsys (config w)))))
                                    else None);
                             (ok, url, w) =
                               test_is_repo_mount os 0 url buf
                                 (path (the (url_instsys (config w))))
                                 (mountpoint_instsys (config w)) w
                         in if ok \<noteq> 0 then test_is_repo_instsys2 os get_instsys2 url buf w
                            else (ok, url, w)))))"

section \<open>What a trace leaves mounted\<close>

text \<open>
  The directory a call of the trace mounted something at, when the call succeeded.
\<close>

fun mounted_at :: "event \<Rightarrow> string option option" where
  "mounted_at (Mount_ro dev dir r) = (if r = 0 then Some dir else None)"
| "mounted_at (Mount_nfs dir srv p r) = (if r = 0 then Some dir else None)"
| "mounted_at (Mount_smb dir srv sh r) = (if r = 0 then Some dir else None)"
| "mounted_at (Umount dir r) = None"
| "mounted_at (Read_file p s r) = None"
| "mounted_at (Unlink s) = None"

text \<open>
  \<^verbatim>\<open>umount\<close> takes away what was mounted last at the directory: the last occurrence in the
  list of the directories with something mounted at them, in the order of the mounts.
\<close>

definition remove_last :: "'a \<Rightarrow> 'a list \<Rightarrow> 'a list" where
  "remove_last x xs = rev (remove1 x (rev xs))"

text \<open>
  The directories with something mounted at them after a trace: a mount that succeeded adds
  its directory, a \<^verbatim>\<open>util_umount\<close> that succeeded takes its directory away, and one that
  failed changes nothing.
\<close>

definition open_step :: "string option list \<Rightarrow> event \<Rightarrow> string option list" where
  "open_step ds e =
     (case e of
        Umount d r \<Rightarrow> (if r = 0 then remove_last d ds else ds)
      | _ \<Rightarrow> (case mounted_at e of Some d \<Rightarrow> ds @ [d] | None \<Rightarrow> ds))"

definition open_mounts :: "event list \<Rightarrow> string option list" where
  "open_mounts t = foldl open_step [] t"

text \<open>The calls made between two states of one run.\<close>

definition events_since :: "world \<Rightarrow> world \<Rightarrow> event list" where
  "events_since w w' = drop (length (trace w)) (trace w')"


section \<open>A reference environment\<close>

text \<open>
  Concrete collaborators, for evaluating the model on concrete inputs.

  \<^verbatim>\<open>file_sym2num\<close> and \<^verbatim>\<open>get_instmode_name\<close>. Modelled from the spec: both are in
  \<^verbatim>\<open>file.c\<close>, which is not part of the sources at hand.  The names are the schemes of the
  spec's data model; a string that is no scheme name gives \<open>-1\<close>, the value \<^verbatim>\<open>url_set\<close>
  tests for.
\<close>

definition ref_schemes :: "(string \<times> int) list" where
  "ref_schemes =
     [(''none'', inst_none), (''file'', inst_file), (''nfs'', inst_nfs), (''ftp'', inst_ftp),
      (''smb'', inst_smb), (''http'', inst_http), (''tftp'', inst_tftp), (''cdrom'', inst_cdrom),
      (''floppy'', inst_floppy), (''hd'', inst_hd), (''dvd'', inst_dvd), (''slp'', inst_slp),
      (''exec'', inst_exec), (''relative'', inst_rel), (''disk'', inst_disk)]"

definition ref_sym2num :: "string \<Rightarrow> int" where
  "ref_sym2num name = (case map_of ref_schemes name of Some i \<Rightarrow> i | None \<Rightarrow> - 1)"

definition ref_instmode_name :: "int \<Rightarrow> string" where
  "ref_instmode_name i =
     (case find (\<lambda>e. snd e = i) ref_schemes of Some e \<Rightarrow> fst e | None \<Rightarrow> ''(null)'')"

text \<open>
  \<^verbatim>\<open>slist_split\<close> and \<^verbatim>\<open>short_dev\<close>. Modelled from the spec: both are in \<^verbatim>\<open>util.c\<close>, which
  is not part of the sources at hand.  The query is split at the separator into its
  non-empty pieces, in order; a device is named without its device directory \<^verbatim>\<open>/dev/\<close>.
\<close>

definition ref_slist_split :: "char \<Rightarrow> string \<Rightarrow> string list" where
  "ref_slist_split c s =
     filter (\<lambda>k. k \<noteq> [])
       (foldr (\<lambda>x acc. if x = c then [] # acc else (x # hd acc) # tl acc) s [[]])"

definition ref_short_dev :: "string option \<Rightarrow> string option" where
  "ref_short_dev dev =
     (case dev of
        None \<Rightarrow> None
      | Some d \<Rightarrow> Some (if take 5 d = ''/dev/'' then drop 5 d else d))"

text \<open>
  libcurl's \<^verbatim>\<open>curl_easy_unescape\<close>: \<^verbatim>\<open>%\<close> and two hexadecimal digits become the byte they
  name; the caller reads the result as a C string, which ends at a decoded NUL.
  \<^verbatim>\<open>curl_easy_escape\<close>: every byte but letters, digits and \<^verbatim>\<open>-._~\<close> is written \<^verbatim>\<open>%XX\<close>.
\<close>

fun curl_decode :: "string \<Rightarrow> string" where
  "curl_decode (c # a # b # s) =
     (if c = CHR ''%'' \<and> isxdigit a \<and> isxdigit b
      then char_of (16 * digit_val a + digit_val b) # curl_decode s
      else c # curl_decode (a # b # s))"
| "curl_decode (c # s) = c # curl_decode s"
| "curl_decode [] = []"

definition ref_unescape :: "string \<Rightarrow> string" where
  "ref_unescape s = takeWhile (\<lambda>c. c \<noteq> CHR 0x00) (curl_decode s)"

definition hex_digit :: "nat \<Rightarrow> char" where
  "hex_digit n = ''0123456789ABCDEF'' ! n"

definition curl_unreserved :: "char \<Rightarrow> bool" where
  "curl_unreserved c = (isalnum c \<or> c \<in> set ''-._~'')"

definition ref_escape :: "string \<Rightarrow> string" where
  "ref_escape s =
     concat (map (\<lambda>c. if curl_unreserved c then [c]
                       else [CHR ''%'', hex_digit (of_char c div 16), hex_digit (of_char c mod 16)]) s)"

text \<open>A file system with the device directory and one partition, as in the spec's example.\<close>

definition ref_stat :: "string \<Rightarrow> st_mode option" where
  "ref_stat p =
     (if p = ''/dev'' \<or> p = ''/dev/'' then Some S_IFDIR
      else if p = ''/dev/sda1'' then Some S_IFBLK
      else None)"

definition ref_env :: url_env where
  "ref_env = \<lparr> file_sym2num = ref_sym2num, get_instmode_name = ref_instmode_name,
     slist_split = ref_slist_split, short_dev = ref_short_dev,
     curl_easy_unescape = ref_unescape, curl_easy_escape = ref_escape,
     stat = ref_stat, config_debug = 0 \<rparr>"

text \<open>The bytes of a text, and an operating system where every call succeeds.\<close>

definition bytes_of :: "string \<Rightarrow> 8 word list" where
  "bytes_of s = map (\<lambda>c. of_nat (of_char c)) s"

definition ref_io :: io_t where
  "ref_io = \<lparr> io_mkstemp = 3, io_tmp_name = ''/tmp/foo_a1b2c3'', io_open = 4,
     io_popen = True, io_fopen = True, io_strerror = [], io_lseek = 0, io_close = 0,
     io_stderr = [], io_little_endian = True \<rparr>"

text \<open>
  What holds of every state of a transfer: the buffer never overflows, and as long as the
  buffer exists nothing has been sniffed and no output has been opened.
\<close>

definition transfer_inv :: "url_data_t \<Rightarrow> bool" where
  "transfer_inv d =
     (buf_len d \<le> buf_max d \<and> \<not> (gzip d \<and> cramfs d) \<and>
      (buf_max d \<noteq> 0 \<longrightarrow>
         \<not> gzip d \<and> \<not> cramfs d \<and> orig_name d = None \<and> \<not> file_opened d))"


definition gz_rootfs :: "8 word list" where
  "gz_rootfs = [0x1f, 0x8b, 8, 8, 0, 0, 0, 0, 0, 3] @ bytes_of ''rootfs 51200'' @ replicate 234 0"

text \<open>
  The same with the names \<^verbatim>\<open>rootfs 4194304\<close>, an image of 4 GiB, and
  \<^verbatim>\<open>rootfs 3000000000\<close>.
\<close>

definition gz_rootfs_4g :: "8 word list" where
  "gz_rootfs_4g =
     [0x1f, 0x8b, 8, 8, 0, 0, 0, 0, 0, 3] @ bytes_of ''rootfs 4194304'' @ replicate 232 0"

definition gz_rootfs_3t :: "8 word list" where
  "gz_rootfs_3t =
     [0x1f, 0x8b, 8, 8, 0, 0, 0, 0, 0, 3] @ bytes_of ''rootfs 3000000000'' @ replicate 229 0"

text \<open>
  Collaborators for the orchestrator.  Modelled from the spec: \<^verbatim>\<open>new_download\<close> is in
  \<^verbatim>\<open>util.c\<close>; here the names are numbered, a new one for each call.  On this system every
  mount and unmount succeeds, except that the NFS server exports \<^verbatim>\<open>/install/boot.iso\<close> as
  a plain file (mounting it is \<^verbatim>\<open>ENOTDIR\<close>); the only file that exists is that image, seen
  through the second mountpoint; every transfer succeeds; the network is configured on
  \<^verbatim>\<open>eth0\<close>; no instsys is configured.
\<close>

definition dec4 :: "nat \<Rightarrow> string" where
  "dec4 k = map (\<lambda>d. ''0123456789'' ! (k div d mod 10)) [1000, 100, 10, 1]"

definition ref_net :: net_t where
  "ref_net = \<lparr>configured = nc_static, net_device = Some ''eth0'', net_hwaddr = None,
     net_cardname = None, net_unique_id = None, use_dhcp = False, hostname_ok = True,
     netmask_ok = True, broadcast_ok = True, config_test = False\<rparr>"

definition ref_config :: config_t where
  "ref_config = \<lparr>url_instsys = None, url_instsys2 = None, mountpoint_instsys = None,
     download_instsys = False, rescue = False, xfonts = False, secure = False, kexec = False,
     sig_failed = False, sha1_failed = False, sha1 = []\<rparr>"

definition ref_world :: world where
  "ref_world = \<lparr>trace = [], mp_count = 0, dl_count = 0, net = ref_net, config = ref_config\<rparr>"

definition ref_os :: os_t where
  "ref_os =
     \<lparr>os_umount = (\<lambda>w d. 0),
      os_mount_ro = (\<lambda>w dev d. 0),
      os_mount_nfs = (\<lambda>w d srv p. if p = Some ''/install/boot.iso'' then ENOTDIR else 0),
      os_mount_smb = (\<lambda>w d url. 0),
      os_check_exist = (\<lambda>w p. if p = Some ''/mounts/mp_1/boot.iso'' then CHR ''r''
                               else CHR 0x00),
      os_is_mountable = (\<lambda>w p. True),
      os_check_exist2 = (\<lambda>w d p. CHR 0x00),
      os_read_file = (\<lambda>w p s. 0),
      os_url_read_file = (\<lambda>w url src dst flags. (0, url, False)),
      os_system = (\<lambda>w c. 0),
      os_content_sha1 = (\<lambda>w. []),
      os_new_download = (\<lambda>k. ''/download/file_'' @ dec4 k),
      os_long_dev = (\<lambda>s. ''/dev/'' @ s),
      os_blk_ident = (\<lambda>d. []),
      os_fstype = (\<lambda>w d. Some ''ext2''),
      os_wlan_setup = (\<lambda>w. 0),
      os_net_config_mask = (\<lambda>w. 3),
      os_net_answer = (\<lambda>w. (True, True, True)),
      os_net_activate_ns = (\<lambda>w. 0),
      os_slp_get_install = (\<lambda>w url. None),
      os_name2inet = (\<lambda>w s. s),
      os_net_check_address2 = (\<lambda>w s. 0),
      os_match_netdevice = (\<lambda>d h s. d = s)\<rparr>"

text \<open>
  Urls as \<^verbatim>\<open>url_mount\<close> hands them to \<^verbatim>\<open>url_mount_disk\<close>: a directory on a partition, an
  image on an NFS server, and a CD-ROM url before any device was looked for.
\<close>

definition hd_url :: url_t where
  "hd_url = url_calloc\<lparr>scheme := inst_hd, path := Some ''/suse'', is_mountable := True,
     used_device := Some ''/dev/sda1''\<rparr>"

definition nfs_url :: url_t where
  "nfs_url = url_calloc\<lparr>scheme := inst_nfs, server := Some ''srv'',
     path := Some ''/install/boot.iso'', is_mountable := True, is_network := True,
     used_device := Some ''eth0'', used_server := Some ''srv''\<rparr>"


definition cd_url :: url_t where
  "cd_url = url_calloc\<lparr>scheme := inst_cdrom, path := Some ''/'', is_mountable := True,
     is_cdrom := True\<rparr>"

text \<open>
  A repository on a CD-ROM.  The instsys and a second image with fonts are given relative to
  the repository and are to be downloaded; the drive \<^verbatim>\<open>/dev/sr0\<close> is a block device that
  can be mounted, both images are on the disc and are copied without error, and the copy of
  the second one cannot be mounted.
\<close>

definition repo_url :: url_t where
  "repo_url = url_calloc\<lparr>scheme := inst_cdrom, path := Some ''/'', is_mountable := True,
     is_cdrom := True, used_device := Some ''/dev/sr0''\<rparr>"

definition repo_config :: config_t where
  "repo_config = ref_config\<lparr>
     url_instsys := Some (url_calloc\<lparr>scheme := inst_rel, path := Some ''boot/x86_64/root''\<rparr>),
     url_instsys2 :=
       Some (url_calloc\<lparr>scheme := inst_rel, path := Some ''boot/x86_64/root-fonts''\<rparr>),
     mountpoint_instsys := Some ''/mounts/instsys'',
     download_instsys := True, xfonts := True\<rparr>"

definition repo_world :: world where
  "repo_world = ref_world\<lparr>config := repo_config\<rparr>"

definition repo_os :: os_t where
  "repo_os = ref_os\<lparr>
     os_check_exist := (\<lambda>w p. if p = Some ''/dev/sr0'' then CHR ''b'' else CHR 0x00),
     os_check_exist2 := (\<lambda>w d p. CHR ''r''),
     os_mount_ro := (\<lambda>w dev d. if dev = Some ''/download/file_0001'' then 1 else 0)\<rparr>"


section \<open>Facts about the C library model\<close>

lemma strchr_cut_append:
  "c \<notin> set a \<Longrightarrow> strchr_cut c (a @ c # b) = Some (a, b)"
  by (induction a) (auto simp: strchr_cut_def)

lemma strchr_cut_None:
  "c \<notin> set s \<Longrightarrow> strchr_cut c s = None"
  by (simp add: strchr_cut_def)

lemma strrchr_cut_append:
  "c \<notin> set b \<Longrightarrow> strrchr_cut c (a @ c # b) = Some (a, b)"
proof -
  assume c: "c \<notin> set b"
  then have "takeWhile (\<lambda>x. x \<noteq> c) (rev b @ c # rev a) = rev b"
    by (simp add: takeWhile_append2 [of "rev b"] takeWhile_append)
  moreover from c have "dropWhile (\<lambda>x. x \<noteq> c) (rev b @ c # rev a) = c # rev a"
    by (simp add: dropWhile_append)
  ultimately show ?thesis by (simp add: strrchr_cut_def)
qed

lemma dec_value_snoc: "dec_value (ds @ [d]) = dec_value ds * 10 + digit_val d"
  by (simp add: dec_value_def)

section \<open>Facts about url_set\<close>

lemmas url_set_defs =
  url_set_def url_set_rest_def url_set_scheme_def url_set_query_def url_set_authority_def url_set_share_def
  url_set_unescape_def url_set_device_def url_set_options_def url_set_flags_def
  url_set_mountable_def url_set_network_def url_set_cdrom_def
  url_set_slash_def url_calloc_def slist_getentry_def strchr_cut_def strcspn_def

lemmas ref_env_defs =
  ref_env_def ref_sym2num_def ref_schemes_def ref_instmode_name_def ref_slist_split_def
  ref_short_dev_def ref_unescape_def ref_escape_def ref_stat_def

lemma url_set_mountable_sel [simp]:
  "scheme (url_set_mountable v) = scheme v" "path (url_set_mountable v) = path v"
  by (simp_all add: url_set_mountable_def)

lemma url_set_network_sel [simp]:
  "scheme (url_set_network v) = scheme v" "path (url_set_network v) = path v"
  "is_mountable (url_set_network v) = is_mountable v"
  by (simp_all add: url_set_network_def)

lemma url_set_cdrom_sel [simp]:
  "scheme (url_set_cdrom v) = scheme v" "path (url_set_cdrom v) = path v"
  "is_mountable (url_set_cdrom v) = is_mountable v"
  by (simp_all add: url_set_cdrom_def)

lemma url_set_flags_sel [simp]:
  "scheme (url_set_flags v) = scheme v" "path (url_set_flags v) = path v"
  by (simp_all add: url_set_flags_def)

lemma url_set_slash_sel [simp]:
  "scheme (url_set_slash v) = scheme v" "is_mountable (url_set_slash v) = is_mountable v"
  by (simp_all add: url_set_slash_def split: option.split)

lemma url_set_slash_path:
  "is_mountable v \<Longrightarrow> \<exists>p. path (url_set_slash v) = Some (CHR ''/'' # p)"
  by (cases "path v") (auto simp: url_set_slash_def neq_Nil_conv)

lemma url_set_flags_mountable:
  "is_mountable (url_set_flags v) =
     (is_mountable v \<or> scheme v \<in> {inst_file, inst_nfs, inst_smb, inst_cdrom, inst_floppy,
        inst_hd, inst_disk, inst_dvd, inst_exec})"
  by (auto simp: url_set_flags_def url_set_mountable_def)

lemma url_set_final:
  "url_set env (Some s) = Some u \<Longrightarrow> \<exists>v. u = url_set_slash (url_set_flags v)"
  by (auto simp: url_set_def url_set_rest_def Let_def split: prod.splits option.splits)

text \<open>
  A record whose scheme is neither smb, nor of the disk family, nor mountable, and that has
  neither query nor authority block, passes lines 408--559 with its strings unescaped.
\<close>

lemma url_set_unescape_sel [simp]:
  "scheme (url_set_unescape env v) = scheme v"
  "query (url_set_unescape env v) = query v"
  "is_mountable (url_set_unescape env v) = is_mountable v"
  "path (url_set_unescape env v) = map_option (curl_easy_unescape env) (path v)"
  by (simp_all add: url_set_unescape_def)

lemma url_set_share_plain:
  "scheme v \<noteq> inst_smb \<Longrightarrow> url_set_share v = v"
  by (simp add: url_set_share_def)

lemma url_set_device_plain:
  "scheme v = 0 \<or> scheme v = 15 \<Longrightarrow> url_set_device env v = Some v"
  by (auto simp: url_set_device_def inst_defs)

lemma url_set_options_plain:
  "query v = [] \<Longrightarrow> url_set_options env v = Some v"
  by (simp add: url_set_options_def slist_getentry_def)

lemma url_set_mountable_plain:
  "scheme v = 0 \<or> scheme v = 15 \<Longrightarrow> url_set_mountable v = v"
  by (auto simp: url_set_mountable_def inst_defs)

lemma url_set_network_plain:
  "scheme v = 0 \<or> scheme v = 15 \<Longrightarrow> url_set_network v = v"
  by (auto simp: url_set_network_def inst_defs)

lemma url_set_cdrom_plain:
  "scheme v = 0 \<or> scheme v = 15 \<Longrightarrow> url_set_cdrom v = v"
  by (auto simp: url_set_cdrom_def inst_defs)

lemma url_set_slash_plain:
  "\<not> is_mountable v \<Longrightarrow> url_set_slash v = v"
  by (simp add: url_set_slash_def)

lemma url_set_rest_plain:
  "scheme v = 0 \<or> scheme v = 15 \<Longrightarrow> query v = [] \<Longrightarrow> \<not> is_mountable v \<Longrightarrow>
   url_set_rest env v None = Some (url_set_unescape env v)"
  by (erule disjE)
     (simp_all add: url_set_rest_def url_set_flags_def url_set_share_plain url_set_device_plain
      url_set_options_plain url_set_mountable_plain url_set_network_plain url_set_cdrom_plain
      url_set_slash_plain inst_smb_def)

section \<open>Claims about url_set\<close>

text \<open>
  C2, as stated, fails: a string without a colon that is no scheme name, and the empty
  string, are not given the scheme \<open>inst_none\<close>.  \<^verbatim>\<open>url_set\<close> takes them as relative
  paths (lines 400--403) and sets the scheme \<open>inst_rel\<close>.
\<close>

theorem url_set_unknown_is_relative:
  "file_sym2num ref_env ''foo'' < 0 \<and>
   map_option scheme (url_set ref_env (Some ''foo'')) = Some inst_rel \<and>
   map_option scheme (url_set ref_env (Some [])) = Some inst_rel \<and>
   inst_rel \<noteq> inst_none"
  by (simp add: url_set_defs ref_env_defs inst_defs)

text \<open>
  C2, amended: \<^verbatim>\<open>url_set\<close> returns a record with the scheme \<open>inst_none\<close> for a NULL
  string, for a string whose part before the first colon is no scheme name
  (\<^verbatim>\<open>file_sym2num\<close> negative or 0), and for a string without a colon for which
  \<^verbatim>\<open>file_sym2num\<close> returns 0 or a negative number other than \<open>-1\<close>.  A string without a
  colon for which \<^verbatim>\<open>file_sym2num\<close> returns \<open>-1\<close> gets the scheme \<open>inst_rel\<close> and is,
  unescaped, the path.  In each case a record is returned: there is no error return.
\<close>

theorem url_set_scheme_none:
  "(\<exists>u. url_set env None = Some u \<and> scheme u = inst_none) \<and>
   (CHR '':'' \<notin> set n \<and> file_sym2num env n \<le> 0 \<longrightarrow>
      (\<exists>u. url_set env (Some (n @ CHR '':'' # r)) = Some u \<and> scheme u = inst_none)) \<and>
   (CHR '':'' \<notin> set x \<and> (file_sym2num env x < - 1 \<or> file_sym2num env x = 0) \<longrightarrow>
      (\<exists>u. url_set env (Some x) = Some u \<and> scheme u = inst_none)) \<and>
   (CHR '':'' \<notin> set x \<and> file_sym2num env x = - 1 \<longrightarrow>
      (\<exists>u. url_set env (Some x) = Some u \<and> scheme u = inst_rel \<and>
           path u = Some (curl_easy_unescape env x)))"
proof (intro conjI impI)
  show "\<exists>u. url_set env None = Some u \<and> scheme u = inst_none"
    by (simp add: url_set_def url_calloc_def inst_none_def)
next
  assume "CHR '':'' \<notin> set n \<and> file_sym2num env n \<le> 0"
  then have "url_set_scheme env (n @ CHR '':'' # r) v = (v\<lparr>scheme := 0\<rparr>, None)" for v
    by (simp add: url_set_scheme_def strchr_cut_append inst_none_def Let_def)
  then show "\<exists>u. url_set env (Some (n @ CHR '':'' # r)) = Some u \<and> scheme u = inst_none"
    by (simp add: url_set_def url_set_rest_plain url_calloc_def inst_defs)
next
  assume a: "CHR '':'' \<notin> set x \<and> (file_sym2num env x < - 1 \<or> file_sym2num env x = 0)"
  show "\<exists>u. url_set env (Some x) = Some u \<and> scheme u = inst_none"
  proof (cases "file_sym2num env x = 0")
    case True
    with a have "url_set_scheme env x v = (v\<lparr>scheme := 0, path := Some []\<rparr>, None)" for v
      by (simp add: url_set_scheme_def strchr_cut_None)
    then show ?thesis
      by (simp add: url_set_def url_set_rest_plain url_calloc_def inst_defs)
  next
    case False
    with a have "url_set_scheme env x v = (v, None)" for v
      by (simp add: url_set_scheme_def strchr_cut_None)
    then show ?thesis
      by (simp add: url_set_def url_set_rest_plain url_calloc_def inst_defs)
  qed
next
  assume "CHR '':'' \<notin> set x \<and> file_sym2num env x = - 1"
  then have "url_set_scheme env x v = (v\<lparr>scheme := inst_rel, path := Some x\<rparr>, None)" for v
    by (simp add: url_set_scheme_def strchr_cut_None)
  then show "\<exists>u. url_set env (Some x) = Some u \<and> scheme u = inst_rel \<and>
      path u = Some (curl_easy_unescape env x)"
    by (simp add: url_set_def url_set_rest_plain url_calloc_def inst_defs)
qed

theorem url_set_scheme_none_witness:
  "(\<exists>u. url_set ref_env (Some ''foo:/bar'') = Some u \<and> scheme u = inst_none) \<and>
   (\<exists>u. url_set ref_env (Some ''none'') = Some u \<and> scheme u = inst_none) \<and>
   (\<exists>u. url_set ref_env (Some ''foo/bar'') = Some u \<and> scheme u = inst_rel \<and>
        path u = Some ''foo/bar'')"
proof -
  have a: "CHR '':'' \<notin> set ''foo'' \<and> file_sym2num ref_env ''foo'' \<le> 0"
    by (simp add: ref_env_defs)
  have b: "CHR '':'' \<notin> set ''none'' \<and>
      (file_sym2num ref_env ''none'' < - 1 \<or> file_sym2num ref_env ''none'' = 0)"
    by (simp add: ref_env_defs inst_defs)
  have c: "CHR '':'' \<notin> set ''foo/bar'' \<and> file_sym2num ref_env ''foo/bar'' = - 1"
    by (simp add: ref_env_defs)
  have d: "curl_easy_unescape ref_env ''foo/bar'' = ''foo/bar''"
    by (simp add: ref_env_defs)
  from url_set_scheme_none [of ref_env "''foo''" "''/bar''" "''none''"] a b
  have "(\<exists>u. url_set ref_env (Some ''foo:/bar'') = Some u \<and> scheme u = inst_none) \<and>
        (\<exists>u. url_set ref_env (Some ''none'') = Some u \<and> scheme u = inst_none)"
    by simp
  moreover from url_set_scheme_none [of ref_env "''foo''" "''/bar''" "''foo/bar''"] c d
  have "\<exists>u. url_set ref_env (Some ''foo/bar'') = Some u \<and> scheme u = inst_rel \<and>
        path u = Some ''foo/bar''"
    by simp
  ultimately show ?thesis by simp
qed

text \<open>
  C3: whenever the scheme of the record \<^verbatim>\<open>url_set\<close> returns is one of the mountable ones
  (file, nfs, smb, cdrom, dvd, floppy, hd, disk, exec), the record is marked mountable and
  its path is not NULL and begins with a slash, whatever the input's path was.
\<close>

theorem url_set_mountable_path:
  "url_set env s = Some u \<Longrightarrow>
   scheme u \<in> {inst_file, inst_nfs, inst_smb, inst_cdrom, inst_dvd, inst_floppy, inst_hd,
                inst_disk, inst_exec} \<Longrightarrow>
   is_mountable u \<and> (\<exists>p. path u = Some (CHR ''/'' # p))"
proof (cases s)
  case None
  assume "url_set env s = Some u"
  with None have "scheme u = 0" by (auto simp: url_set_def url_calloc_def)
  moreover assume "scheme u \<in> {inst_file, inst_nfs, inst_smb, inst_cdrom, inst_dvd, inst_floppy,
    inst_hd, inst_disk, inst_exec}"
  ultimately show ?thesis by (simp add: inst_defs)
next
  case (Some x)
  assume "url_set env s = Some u"
  with Some obtain v where u: "u = url_set_slash (url_set_flags v)"
    using url_set_final by blast
  assume "scheme u \<in> {inst_file, inst_nfs, inst_smb, inst_cdrom, inst_dvd, inst_floppy,
    inst_hd, inst_disk, inst_exec}"
  with u have m: "is_mountable (url_set_flags v)"
    by (auto simp: url_set_flags_mountable)
  with u show ?thesis
    using url_set_slash_path [OF m] by simp
qed

theorem url_set_mountable_path_witness:
  "(\<exists>u. url_set ref_env (Some ''smb://srv/share'') = Some u \<and> scheme u = inst_smb \<and>
        is_mountable u \<and> path u = Some ''/'') \<and>
   (\<exists>u. url_set ref_env (Some ''file:data/repo'') = Some u \<and> scheme u = inst_file \<and>
        is_mountable u \<and> path u = Some ''/data/repo'')"
proof -
  have "\<exists>u. url_set ref_env (Some ''smb://srv/share'') = Some u \<and> scheme u = inst_smb \<and>
      path u = Some ''/''"
    by (simp add: url_set_defs ref_env_defs inst_defs)
  then obtain u where u: "url_set ref_env (Some ''smb://srv/share'') = Some u"
    "scheme u = inst_smb" "path u = Some ''/''" by blast
  have "\<exists>u. url_set ref_env (Some ''file:data/repo'') = Some u \<and> scheme u = inst_file \<and>
      path u = Some ''/data/repo''"
    by (simp add: url_set_defs ref_env_defs inst_defs)
  then obtain v where v: "url_set ref_env (Some ''file:data/repo'') = Some v"
    "scheme v = inst_file" "path v = Some ''/data/repo''" by blast
  from url_set_mountable_path [OF u(1)] u(2) have "is_mountable u" by simp
  moreover from url_set_mountable_path [OF v(1)] v(2) have "is_mountable v" by simp
  ultimately show ?thesis using u v by blast
qed

section \<open>Facts about the round trip\<close>

lemma none_of_simps [simp]:
  "none_of cs []"
  "none_of cs (x # xs) = (x \<notin> set cs \<and> none_of cs xs)"
  "none_of cs (a @ b) = (none_of cs a \<and> none_of cs b)"
  by (auto simp: none_of_def)

lemma none_of_mem: "none_of cs s \<Longrightarrow> c \<in> set cs \<Longrightarrow> c \<notin> set s"
  by (auto simp: none_of_def)

lemma none_of_mono: "none_of cs s \<Longrightarrow> set ds \<subseteq> set cs \<Longrightarrow> none_of ds s"
  by (auto simp: none_of_def)


lemma strcspn_Nil [simp]: "strcspn [] rej = 0"
  by (simp add: strcspn_def)

lemma strcspn_hd: "hd r \<in> set rej \<Longrightarrow> strcspn r rej = 0"
  by (cases r) (auto simp: strcspn_def)











lemma field_free_simps [simp]:
  "field_free cs None" "field_free cs (Some s) = none_of cs s"
  by (simp_all add: field_free_def)











lemma url_set_flags_fields [simp]:
  "server (url_set_flags v) = server v" "port (url_set_flags v) = port v"
  "share (url_set_flags v) = share v" "user (url_set_flags v) = user v"
  "password (url_set_flags v) = password v" "domain (url_set_flags v) = domain v"
  by (simp_all add: url_set_flags_def url_set_mountable_def url_set_network_def url_set_cdrom_def)

lemma url_set_slash_fields [simp]:
  "server (url_set_slash v) = server v" "port (url_set_slash v) = port v"
  "share (url_set_slash v) = share v" "user (url_set_slash v) = user v"
  "password (url_set_slash v) = password v" "domain (url_set_slash v) = domain v"
  by (simp_all add: url_set_slash_def split: option.split)




lemma none_of_notin: "none_of cs s \<Longrightarrow> c \<in> set cs \<Longrightarrow> c \<notin> set s"
  by (auto simp: none_of_def)


lemma none_of_hd: "none_of cs s \<Longrightarrow> c \<in> set cs \<Longrightarrow> s \<noteq> [] \<Longrightarrow> hd s \<noteq> c"
  by (cases s) (auto simp: none_of_def)





lemma take1_hd: "(take 1 p = [c]) = (p \<noteq> [] \<and> hd p = c)"
  by (cases p) auto



























section \<open>Claims about the round trip\<close>




section \<open>Facts about url_write_cb\<close>

lemma url_write_digest_sel [simp]:
  "unzip (url_write_digest b d) = unzip d"
  "gzip (url_write_digest b d) = gzip d"
  "cramfs (url_write_digest b d) = cramfs d"
  "flush (url_write_digest b d) = flush d"
  "file_opened (url_write_digest b d) = file_opened d"
  "buf_data (url_write_digest b d) = buf_data d"
  "buf_max (url_write_digest b d) = buf_max d"
  "orig_name (url_write_digest b d) = orig_name d"
  "image_size (url_write_digest b d) = image_size d"
  "progress (url_write_digest b d) = progress d"
  "zp_total (url_write_digest b d) = zp_total d"
  "p_total (url_write_digest b d) = p_total d"
  "pipe_fd (url_write_digest b d) = pipe_fd d"
  "f (url_write_digest b d) = f d"
  "err (url_write_digest b d) = err d"
  by (simp_all add: url_write_digest_def)

lemma url_write_fill_sel [simp]:
  "unzip (url_write_fill b d) = unzip d"
  "gzip (url_write_fill b d) = gzip d"
  "cramfs (url_write_fill b d) = cramfs d"
  "flush (url_write_fill b d) = flush d"
  "file_opened (url_write_fill b d) = file_opened d"
  "buf_max (url_write_fill b d) = buf_max d"
  "orig_name (url_write_fill b d) = orig_name d"
  "image_size (url_write_fill b d) = image_size d"
  "progress (url_write_fill b d) = progress d"
  "zp_total (url_write_fill b d) = zp_total d"
  "p_total (url_write_fill b d) = p_total d"
  "pipe_fd (url_write_fill b d) = pipe_fd d"
  "f (url_write_fill b d) = f d"
  "err (url_write_fill b d) = err d"
  by (simp_all add: url_write_fill_def)

lemma url_write_classify_sel [simp]:
  "unzip (url_write_classify io d) = unzip d"
  "flush (url_write_classify io d) = flush d"
  "file_opened (url_write_classify io d) = file_opened d"
  "buf_data (url_write_classify io d) = buf_data d"
  "buf_max (url_write_classify io d) = buf_max d"
  "image_size (url_write_classify io d) = image_size d"
  "progress (url_write_classify io d) = progress d"
  "zp_total (url_write_classify io d) = zp_total d"
  "p_total (url_write_classify io d) = p_total d"
  "pipe_fd (url_write_classify io d) = pipe_fd d"
  "f (url_write_classify io d) = f d"
  "err (url_write_classify io d) = err d"
  by (simp_all add: url_write_classify_def Let_def)

lemma url_write_image_size_sel [simp]:
  "unzip (url_write_image_size d) = unzip d"
  "gzip (url_write_image_size d) = gzip d"
  "cramfs (url_write_image_size d) = cramfs d"
  "flush (url_write_image_size d) = flush d"
  "file_opened (url_write_image_size d) = file_opened d"
  "buf_data (url_write_image_size d) = buf_data d"
  "buf_max (url_write_image_size d) = buf_max d"
  "orig_name (url_write_image_size d) = orig_name d"
  "progress (url_write_image_size d) = progress d"
  "zp_total (url_write_image_size d) = zp_total d"
  "p_total (url_write_image_size d) = p_total d"
  "pipe_fd (url_write_image_size d) = pipe_fd d"
  "f (url_write_image_size d) = f d"
  "err (url_write_image_size d) = err d"
  by (simp_all add: url_write_image_size_def split: option.split)

lemma url_write_sniff_sel [simp]:
  "unzip (url_write_sniff io d) = unzip d"
  "flush (url_write_sniff io d) = flush d"
  "file_opened (url_write_sniff io d) = file_opened d"
  "buf_data (url_write_sniff io d) = buf_data d"
  "buf_max (url_write_sniff io d) = buf_max d"
  "progress (url_write_sniff io d) = progress d"
  "zp_total (url_write_sniff io d) = zp_total d"
  "p_total (url_write_sniff io d) = p_total d"
  "pipe_fd (url_write_sniff io d) = pipe_fd d"
  "f (url_write_sniff io d) = f d"
  "err (url_write_sniff io d) = err d"
  by (simp_all add: url_write_sniff_def)

lemma url_write_open_sel [simp]:
  "unzip (url_write_open io d) = unzip d"
  "gzip (url_write_open io d) = gzip d"
  "cramfs (url_write_open io d) = cramfs d"
  "flush (url_write_open io d) = flush d"
  "buf_data (url_write_open io d) = buf_data d"
  "buf_max (url_write_open io d) = buf_max d"
  "orig_name (url_write_open io d) = orig_name d"
  "image_size (url_write_open io d) = image_size d"
  "progress (url_write_open io d) = progress d"
  "p_total (url_write_open io d) = p_total d"
  by (simp_all add: url_write_open_def Let_def)

lemma url_write_out_sel [simp]:
  "unzip (url_write_out r d) = unzip d"
  "gzip (url_write_out r d) = gzip d"
  "cramfs (url_write_out r d) = cramfs d"
  "flush (url_write_out r d) = flush d"
  "file_opened (url_write_out r d) = file_opened d"
  "orig_name (url_write_out r d) = orig_name d"
  "image_size (url_write_out r d) = image_size d"
  "progress (url_write_out r d) = progress d"
  "zp_total (url_write_out r d) = zp_total d"
  "p_total (url_write_out r d) = p_total d"
  "pipe_fd (url_write_out r d) = pipe_fd d"
  "f (url_write_out r d) = f d"
  "err (url_write_out r d) = err d"
  by (simp_all add: url_write_out_def Let_def)

lemma url_write_seek_sel [simp]:
  "unzip (url_write_seek io d) = unzip d"
  "gzip (url_write_seek io d) = gzip d"
  "cramfs (url_write_seek io d) = cramfs d"
  "flush (url_write_seek io d) = flush d"
  "file_opened (url_write_seek io d) = file_opened d"
  "buf_data (url_write_seek io d) = buf_data d"
  "buf_max (url_write_seek io d) = buf_max d"
  "orig_name (url_write_seek io d) = orig_name d"
  "image_size (url_write_seek io d) = image_size d"
  "progress (url_write_seek io d) = progress d"
  "zp_total (url_write_seek io d) = zp_total d"
  "p_total (url_write_seek io d) = p_total d"
  "pipe_fd (url_write_seek io d) = pipe_fd d"
  "f (url_write_seek io d) = f d"
  "err (url_write_seek io d) = err d"
  by (simp_all add: url_write_seek_def)

lemma url_progress_update_sel [simp]:
  "unzip (snd (url_progress_update d)) = unzip d"
  "gzip (snd (url_progress_update d)) = gzip d"
  "cramfs (snd (url_progress_update d)) = cramfs d"
  "flush (snd (url_progress_update d)) = flush d"
  "file_opened (snd (url_progress_update d)) = file_opened d"
  "buf_data (snd (url_progress_update d)) = buf_data d"
  "buf_max (snd (url_progress_update d)) = buf_max d"
  "orig_name (snd (url_progress_update d)) = orig_name d"
  "image_size (snd (url_progress_update d)) = image_size d"
  "progress (snd (url_progress_update d)) = progress d"
  "zp_total (snd (url_progress_update d)) = zp_total d"
  "p_total (snd (url_progress_update d)) = p_total d"
  "pipe_fd (snd (url_progress_update d)) = pipe_fd d"
  "f (snd (url_progress_update d)) = f d"
  "err (snd (url_progress_update d)) = err d"
  by (simp_all add: url_progress_update_def Let_def)

lemma url_write_notify_sel [simp]:
  "unzip (url_write_notify url_progress_cb1 d) = unzip d"
  "gzip (url_write_notify url_progress_cb1 d) = gzip d"
  "cramfs (url_write_notify url_progress_cb1 d) = cramfs d"
  "flush (url_write_notify url_progress_cb1 d) = flush d"
  "file_opened (url_write_notify url_progress_cb1 d) = file_opened d"
  "buf_data (url_write_notify url_progress_cb1 d) = buf_data d"
  "buf_max (url_write_notify url_progress_cb1 d) = buf_max d"
  "orig_name (url_write_notify url_progress_cb1 d) = orig_name d"
  "image_size (url_write_notify url_progress_cb1 d) = image_size d"
  "progress (url_write_notify url_progress_cb1 d) = progress d"
  "zp_total (url_write_notify url_progress_cb1 d) = zp_total d"
  "p_total (url_write_notify url_progress_cb1 d) = p_total d"
  "pipe_fd (url_write_notify url_progress_cb1 d) = pipe_fd d"
  "f (url_write_notify url_progress_cb1 d) = f d"
  "err (url_write_notify url_progress_cb1 d) = err d"
  by (simp_all add: url_write_notify_def url_progress_cb1_def)

lemma url_write_store_sel [simp]:
  "unzip (url_write_store io r d) = unzip d"
  "gzip (url_write_store io r d) = gzip d"
  "cramfs (url_write_store io r d) = cramfs d"
  "flush (url_write_store io r d) = flush d"
  "orig_name (url_write_store io r d) = orig_name d"
  "image_size (url_write_store io r d) = image_size d"
  "progress (url_write_store io r d) = progress d"
  "p_total (url_write_store io r d) = p_total d"
  by (simp_all add: url_write_store_def)

lemma url_write_cb_snd:
  "snd (url_write_cb io cb buffer d) =
     url_write_notify cb (url_write_seek io
       (url_write_store io (drop (url_write_take buffer d) buffer)
         (url_write_sniff io (url_write_fill buffer (url_write_digest buffer d)))))"
  by (simp add: url_write_cb_def Let_def)

lemma transfer_inv_start:
  "transfer_inv (url_data_new\<lparr>unzip := u, progress := p, file_name := n\<rparr>)"
  by (simp add: transfer_inv_def url_data_new_def)

lemma transfer_inv_fill:
  "transfer_inv d \<Longrightarrow> transfer_inv (url_write_fill b d)"
  by (auto simp: transfer_inv_def url_write_fill_def url_write_take_def)

lemma transfer_inv_digest:
  "transfer_inv d \<Longrightarrow> transfer_inv (url_write_digest b d)"
  by (simp add: transfer_inv_def)

lemma url_write_classify_one:
  "\<not> gzip d \<Longrightarrow> \<not> cramfs d \<Longrightarrow>
   \<not> (gzip (url_write_classify io d) \<and> cramfs (url_write_classify io d))"
  by (simp add: url_write_classify_def Let_def)

lemma url_write_out_reset:
  "buf_len d \<le> buf_max d \<Longrightarrow>
   buf_max (url_write_out r d) = 0 \<and> buf_data (url_write_out r d) = []"
  by (cases "buf_data d") (auto simp: url_write_out_def Let_def)

lemma url_write_out_opened [simp]:
  "file_opened (url_write_out r d) = file_opened d"
  by (simp add: url_write_out_def Let_def)

lemma transfer_inv_store_sniff:
  assumes "transfer_inv d"
  shows "transfer_inv (url_write_store io r (url_write_sniff io d))"
proof (cases "buf_len d = buf_max d \<or> flush d")
  case False
  then have "url_write_sniff io d = d"
    by (simp add: url_write_sniff_def url_write_sniffs_def)
  with False assms show ?thesis
    by (simp add: url_write_store_def)
next
  case True
  let ?s = "url_write_sniff io d"
  have len: "buf_len (url_write_open io ?s) \<le> buf_max (url_write_open io ?s)"
    using assms by (simp add: transfer_inv_def)
  have one: "\<not> (gzip ?s \<and> cramfs ?s)"
  proof (cases "url_write_sniffs d")
    case True
    then have "buf_max d \<noteq> 0"
      using assms by (auto simp: url_write_sniffs_def transfer_inv_def)
    with assms have "\<not> gzip d" "\<not> cramfs d"
      by (simp_all add: transfer_inv_def)
    then show ?thesis
      using url_write_classify_one [of d io] by (simp add: url_write_sniff_def)
  next
    case False
    then show ?thesis
      using assms by (simp add: url_write_sniff_def transfer_inv_def)
  qed
  from True have "url_write_store io r ?s = url_write_out r (url_write_open io ?s)"
    by (simp add: url_write_store_def)
  with url_write_out_reset [OF len, of r] one show ?thesis
    by (simp add: transfer_inv_def)
qed

lemma transfer_inv_seek:
  "transfer_inv d \<Longrightarrow> transfer_inv (url_write_seek io d)"
  by (simp add: transfer_inv_def)

lemma transfer_inv_notify:
  "transfer_inv d \<Longrightarrow> transfer_inv (url_write_notify url_progress_cb1 d)"
  by (simp add: transfer_inv_def)

lemma transfer_inv_chunk:
  "transfer_inv d \<Longrightarrow> transfer_inv (snd (url_write_cb io url_progress_cb1 buffer d))"
  by (simp add: url_write_cb_snd transfer_inv_notify transfer_inv_seek transfer_inv_store_sniff
      transfer_inv_fill transfer_inv_digest)

lemma transfer_inv_total:
  "transfer_inv d \<Longrightarrow> transfer_inv (snd (url_progress_cb t d))"
  by (simp add: transfer_inv_def url_progress_cb_def url_progress_cb1_def Let_def)

lemma transfer_inv_flush:
  "transfer_inv d \<Longrightarrow> transfer_inv (d\<lparr>flush := b\<rparr>)"
  by (simp add: transfer_inv_def)

lemma transfer_invariant: "transfer d \<Longrightarrow> transfer_inv d"
  by (induction rule: transfer.induct)
     (simp_all add: transfer_inv_start transfer_inv_chunk transfer_inv_total transfer_inv_flush)

lemma isdigit_not_isspace: "isdigit c \<Longrightarrow> \<not> isspace c"
  by (auto simp: isdigit_def isspace_def)

lemma isdigit_not_sign: "isdigit c \<Longrightarrow> c \<noteq> CHR ''-'' \<and> c \<noteq> CHR ''+''"
  by (auto simp: isdigit_def)

lemma sscanf_word_int_digits:
  assumes "w \<noteq> []" "\<forall>c\<in>set w. \<not> isspace c" "ds \<noteq> []" "\<forall>c\<in>set ds. isdigit c"
  shows "sscanf_word_int (w @ CHR '' '' # ds) =
           Some (sint (word_of_int (min (int (dec_value ds)) (2 ^ 63 - 1)) :: 32 word))"
proof -
  have sp: "isspace CHR '' ''" by (simp add: isspace_def)
  from assms(1,2) have 1: "dropWhile isspace (w @ CHR '' '' # ds) = w @ CHR '' '' # ds"
    by (cases w) auto
  from assms(2) sp have 2: "takeWhile (\<lambda>c. \<not> isspace c) (w @ CHR '' '' # ds) = w"
    by (simp add: takeWhile_append2)
  from assms(2) sp have 3: "dropWhile (\<lambda>c. \<not> isspace c) (w @ CHR '' '' # ds) = CHR '' '' # ds"
    by (simp add: dropWhile_append2)
  from assms(3,4) have hd: "isdigit (hd ds)" by (cases ds) auto
  from assms(3) hd sp have 4: "dropWhile isspace (CHR '' '' # ds) = ds"
    by (cases ds) (auto simp: isdigit_not_isspace)
  from assms(4) have 5: "takeWhile isdigit ds = ds" by simp
  from hd have 6: "hd ds \<noteq> CHR ''-''" "hd ds \<noteq> CHR ''+''"
    using isdigit_not_sign by blast+
  show ?thesis
    unfolding sscanf_word_int_def Let_def 1 2 3 4 5
    using assms(1,3) 6 by (simp add: 5)
qed

lemma sint_int_32:
  "0 \<le> v \<Longrightarrow> v < 2 ^ 31 \<Longrightarrow> sint (word_of_int v :: 32 word) = v"
  by (simp add: signed_of_int signed_take_bit_int_eq_self)

lemma sscanf_word_int_pattern:
  assumes "w \<noteq> []" "\<forall>c\<in>set w. \<not> isspace c" "ds \<noteq> []" "\<forall>c\<in>set ds. isdigit c"
    and "dec_value ds < 2 ^ 31"
  shows "sscanf_word_int (w @ CHR '' '' # ds) = Some (int (dec_value ds))"
proof -
  from assms(5) have b: "int (dec_value ds) < 2 ^ 31" by (simp flip: of_nat_less_iff)
  then have m: "min (int (dec_value ds)) (2 ^ 63 - 1) = int (dec_value ds)" by simp
  have "sint (word_of_int (int (dec_value ds)) :: 32 word) = int (dec_value ds)"
    by (rule sint_int_32) (use b in simp_all)
  with sscanf_word_int_digits [OF assms(1-4)] show ?thesis by (simp only: m)
qed

lemma unat_image_bytes:
  "n < 2 ^ 22 \<Longrightarrow> unat (push_bit 10 (of_nat n :: 32 word)) = 1024 * n"
  by (simp add: push_bit_eq_mult unat_word_ariths unat_of_nat)

section \<open>Claims about the sniffing\<close>





lemma url_write_cb_class_sel:
  "gzip (snd (url_write_cb io url_progress_cb1 b d)) =
     gzip (url_write_sniff io (url_write_fill b (url_write_digest b d)))"
  "cramfs (snd (url_write_cb io url_progress_cb1 b d)) =
     cramfs (url_write_sniff io (url_write_fill b (url_write_digest b d)))"
  "orig_name (snd (url_write_cb io url_progress_cb1 b d)) =
     orig_name (url_write_sniff io (url_write_fill b (url_write_digest b d)))"
  "image_size (snd (url_write_cb io url_progress_cb1 b d)) =
     image_size (url_write_sniff io (url_write_fill b (url_write_digest b d)))"
  by (simp_all add: url_write_cb_snd)


lemma url_write_open_gzip:
  "\<not> file_opened d \<Longrightarrow> gzip d \<Longrightarrow> 0 < io_mkstemp io \<Longrightarrow> 0 \<le> io_open io \<Longrightarrow>
   zp_total (url_write_open io d) = push_bit 10 (image_size d) \<and>
   f (url_write_open io d) = io_popen io"
  by (simp add: url_write_open_def Let_def)

lemma url_write_out_zp [simp]:
  "zp_total (url_write_out r d) = zp_total d"
  by (simp add: url_write_out_def Let_def)

text \<open>
  What does hold of the image size: when the name captured by the sniffing is a word, a blank
  and a decimal number that is positive and below \<open>2 ^ 31\<close>, that number is stored as the
  image size; and when the stream is gzip and the output file is opened (\<^verbatim>\<open>mkstemp\<close> and
  \<^verbatim>\<open>open\<close> succeed) the decompressed total is the image size shifted left by 10 in 32
  bits, which for a size below \<open>2 ^ 22\<close> kilobytes is that size in bytes.
\<close>

lemma url_write_cb_image_size_in_range:
  "transfer d \<Longrightarrow>
   (let d1 = url_write_fill buffer (url_write_digest buffer d);
        d2 = url_write_classify io d1;
        d' = snd (url_write_cb io url_progress_cb1 buffer d)
    in url_write_sniffs d1 \<and> orig_name d2 = Some (w @ CHR '' '' # ds) \<and>
       w \<noteq> [] \<and> (\<forall>c\<in>set w. \<not> isspace c) \<and> ds \<noteq> [] \<and> (\<forall>c\<in>set ds. isdigit c) \<and>
       0 < dec_value ds \<and> dec_value ds < 2 ^ 31 \<longrightarrow>
         image_size d' = of_nat (dec_value ds) \<and>
         (gzip d2 \<and> 0 < io_mkstemp io \<and> 0 \<le> io_open io \<longrightarrow>
            zp_total d' = push_bit 10 (image_size d') \<and>
            (dec_value ds < 2 ^ 22 \<longrightarrow> unat (zp_total d') = 1024 * dec_value ds)))"
proof -
  assume t: "transfer d"
  let ?d1 = "url_write_fill buffer (url_write_digest buffer d)"
  let ?d2 = "url_write_classify io ?d1"
  let ?d3 = "url_write_image_size ?d2"
  let ?d' = "snd (url_write_cb io url_progress_cb1 buffer d)"
  have inv1: "transfer_inv ?d1"
    using t by (simp add: transfer_invariant transfer_inv_fill transfer_inv_digest)
  {
    assume s: "url_write_sniffs ?d1"
      and n: "orig_name ?d2 = Some (w @ CHR '' '' # ds)"
      and w: "w \<noteq> []" "\<forall>c\<in>set w. \<not> isspace c" "ds \<noteq> []" "\<forall>c\<in>set ds. isdigit c"
      and v: "0 < dec_value ds"
      and b: "dec_value ds < 2 ^ 31"
    from s have sn: "url_write_sniff io ?d1 = ?d3"
      by (simp add: url_write_sniff_def)
    from n v sscanf_word_int_pattern [OF w b]
    have i3: "image_size ?d3 = of_nat (dec_value ds)"
      by (simp add: url_write_image_size_def)
    then have i: "image_size ?d' = of_nat (dec_value ds)"
      by (simp add: url_write_cb_class_sel sn)
    from s have "buf_max ?d1 \<noteq> 0"
      using inv1 by (auto simp: url_write_sniffs_def transfer_inv_def)
    with inv1 have "\<not> file_opened ?d1" by (simp add: transfer_inv_def)
    then have fo: "\<not> file_opened ?d3" by simp
    from s have st: "url_write_store io r ?d3 = url_write_out r (url_write_open io ?d3)" for r
      by (simp add: url_write_store_def url_write_sniffs_def)
    {
      assume g: "gzip ?d2" and m: "0 < io_mkstemp io" and opn: "0 \<le> io_open io"
      from g have "gzip ?d3" by simp
      from url_write_open_gzip [OF fo this m opn]
      have "zp_total ?d' = push_bit 10 (image_size ?d3)"
        by (simp add: url_write_cb_snd sn st)
      with i3 i have "zp_total ?d' = push_bit 10 (image_size ?d')"
        and "dec_value ds < 2 ^ 22 \<longrightarrow> unat (zp_total ?d') = 1024 * dec_value ds"
        by (simp_all add: unat_image_bytes)
    }
    with i have "image_size ?d' = of_nat (dec_value ds) \<and>
         (gzip ?d2 \<and> 0 < io_mkstemp io \<and> 0 \<le> io_open io \<longrightarrow>
            zp_total ?d' = push_bit 10 (image_size ?d') \<and>
            (dec_value ds < 2 ^ 22 \<longrightarrow> unat (zp_total ?d') = 1024 * dec_value ds))"
      by blast
  }
  then show ?thesis
    unfolding Let_def by blast
qed

lemma char_of_byte_eq:
  "(char_of_byte b = c) = (unat b = of_char c)"
proof -
  have "unat b < 2 ^ 8" using unsigned_less [of b] by simp
  then have "take_bit 8 (unat b) = unat b" by (rule take_bit_nat_eq_self)
  then show ?thesis by (simp add: char_of_byte_def char_of_eq_iff)
qed

lemma gz_rootfs_fill:
  "url_write_fill gz_rootfs (url_write_digest gz_rootfs
     (url_data_new\<lparr>unzip := True, progress := False, file_name := []\<rparr>)) =
   url_data_new\<lparr>unzip := True, progress := False, file_name := [], sha1_in := gz_rootfs,
     buf_data := gz_rootfs\<rparr>"
  by (simp add: url_write_fill_def url_write_digest_def url_write_take_def url_data_new_def
      gz_rootfs_def bytes_of_def)

lemma gz_rootfs_name: "c_string (drop 10 gz_rootfs) = ''rootfs 51200''"
  by (simp add: gz_rootfs_def bytes_of_def c_string_def char_of_byte_eq)

lemma gz_rootfs_bytes:
  "length gz_rootfs = 256" "gz_rootfs ! 0 = 0x1f" "gz_rootfs ! 1 = 0x8b" "gz_rootfs ! Suc 0 = 0x8b"
  "gz_rootfs ! 3 AND 0x08 \<noteq> 0"
  "0 \<in> set (drop 10 gz_rootfs)" "length (takeWhile (\<lambda>b. b \<noteq> 0) (drop 10 gz_rootfs)) = 12"
  by (simp_all add: gz_rootfs_def bytes_of_def)


lemma url_write_cb_image_size_rootfs:
  "image_size (snd (url_write_cb ref_io url_progress_cb1 gz_rootfs
      (url_data_new\<lparr>unzip := True, progress := False, file_name := []\<rparr>))) = 51200 \<and>
   zp_total (snd (url_write_cb ref_io url_progress_cb1 gz_rootfs
      (url_data_new\<lparr>unzip := True, progress := False, file_name := []\<rparr>))) = 52428800"
proof -
  let ?d = "url_data_new\<lparr>unzip := True, progress := False, file_name := []\<rparr>"
  let ?d1 = "url_write_fill gz_rootfs (url_write_digest gz_rootfs ?d)"
  have t: "transfer ?d" by (rule transfer.start)
  have s: "url_write_sniffs ?d1"
    unfolding gz_rootfs_fill
    by (simp add: url_write_sniffs_def url_data_new_def gz_rootfs_bytes)
  have c: "gzip (url_write_classify ref_io ?d1) \<and>
      orig_name (url_write_classify ref_io ?d1) = Some (''rootfs'' @ CHR '' '' # ''51200'')"
    by (simp add: gz_rootfs_fill url_write_classify_def gz_rootfs_bytes gz_rootfs_name Let_def)
  have w: "''rootfs'' \<noteq> [] \<and> (\<forall>c\<in>set ''rootfs''. \<not> isspace c) \<and> ''51200'' \<noteq> [] \<and>
      (\<forall>c\<in>set ''51200''. isdigit c)"
    by (simp add: isspace_def isdigit_def)
  have v: "dec_value ''51200'' = 51200"
    by (simp add: dec_value_def digit_val_def isdigit_def)
  have io: "0 < io_mkstemp ref_io \<and> 0 \<le> io_open ref_io"
    by (simp add: ref_io_def)
  from url_write_cb_image_size_in_range [OF t, of gz_rootfs ref_io "''rootfs''" "''51200''"] s c w v io
  show ?thesis
    by (simp add: Let_def push_bit_eq_mult)
qed

lemma gz_rootfs_4g_fill:
  "url_write_fill gz_rootfs_4g (url_write_digest gz_rootfs_4g
     (url_data_new\<lparr>unzip := True, progress := False, file_name := []\<rparr>)) =
   url_data_new\<lparr>unzip := True, progress := False, file_name := [], sha1_in := gz_rootfs_4g,
     buf_data := gz_rootfs_4g\<rparr>"
  by (simp add: url_write_fill_def url_write_digest_def url_write_take_def url_data_new_def
      gz_rootfs_4g_def bytes_of_def)

lemma gz_rootfs_4g_name: "c_string (drop 10 gz_rootfs_4g) = ''rootfs 4194304''"
  by (simp add: gz_rootfs_4g_def bytes_of_def c_string_def char_of_byte_eq)

lemma gz_rootfs_4g_bytes:
  "length gz_rootfs_4g = 256" "gz_rootfs_4g ! 0 = 0x1f" "gz_rootfs_4g ! 1 = 0x8b"
  "gz_rootfs_4g ! Suc 0 = 0x8b" "gz_rootfs_4g ! 3 AND 0x08 \<noteq> 0"
  "0 \<in> set (drop 10 gz_rootfs_4g)"
  "length (takeWhile (\<lambda>b. b \<noteq> 0) (drop 10 gz_rootfs_4g)) = 14"
  by (simp_all add: gz_rootfs_4g_def bytes_of_def)

lemma gz_rootfs_3t_fill:
  "url_write_fill gz_rootfs_3t (url_write_digest gz_rootfs_3t
     (url_data_new\<lparr>unzip := True, progress := False, file_name := []\<rparr>)) =
   url_data_new\<lparr>unzip := True, progress := False, file_name := [], sha1_in := gz_rootfs_3t,
     buf_data := gz_rootfs_3t\<rparr>"
  by (simp add: url_write_fill_def url_write_digest_def url_write_take_def url_data_new_def
      gz_rootfs_3t_def bytes_of_def)

lemma gz_rootfs_3t_name: "c_string (drop 10 gz_rootfs_3t) = ''rootfs 3000000000''"
  by (simp add: gz_rootfs_3t_def bytes_of_def c_string_def char_of_byte_eq)

lemma gz_rootfs_3t_bytes:
  "length gz_rootfs_3t = 256" "gz_rootfs_3t ! 0 = 0x1f" "gz_rootfs_3t ! 1 = 0x8b"
  "gz_rootfs_3t ! Suc 0 = 0x8b" "gz_rootfs_3t ! 3 AND 0x08 \<noteq> 0"
  "0 \<in> set (drop 10 gz_rootfs_3t)"
  "length (takeWhile (\<lambda>b. b \<noteq> 0) (drop 10 gz_rootfs_3t)) = 17"
  by (simp_all add: gz_rootfs_3t_def bytes_of_def)

lemma url_write_cb_image_size_sel:
  "url_write_sniffs (url_write_fill buffer (url_write_digest buffer d)) \<Longrightarrow>
   image_size (snd (url_write_cb io url_progress_cb1 buffer d)) =
     image_size (url_write_image_size
       (url_write_classify io (url_write_fill buffer (url_write_digest buffer d))))"
  by (simp add: url_write_cb_class_sel url_write_sniff_def)

lemma sscanf_3t: "sscanf_word_int ''rootfs 3000000000'' = Some (- 1294967296)"
proof -
  have v: "dec_value ''3000000000'' = 3000000000"
    by (simp add: dec_value_def digit_val_def isdigit_def)
  have "sscanf_word_int (''rootfs'' @ CHR '' '' # ''3000000000'') =
      Some (sint (word_of_int (min (int (dec_value ''3000000000'')) (2 ^ 63 - 1)) :: 32 word))"
    by (rule sscanf_word_int_digits) (simp_all add: isspace_def isdigit_def)
  then show ?thesis by (simp add: v)
qed

text \<open>
  C5: the number of the name is not always what is stored, and the total is not always the
  size in bytes.  The name \<^verbatim>\<open>rootfs 4194304\<close> (an image of 4 GiB) gives the image size
  4194304, and when the output is opened the decompressed total is \<open>4194304 << 10\<close> in the
  32 bits of the \<^verbatim>\<open>unsigned\<close> field, which is 0.  The name \<^verbatim>\<open>rootfs 3000000000\<close> gives no
  image size at all: the number does not fit the \<^verbatim>\<open>int\<close> that \<^verbatim>\<open>sscanf\<close> fills, what is
  stored there is negative, and line 245 drops it.
\<close>

theorem url_write_cb_image_size_wraps:
  "orig_name (snd (url_write_cb ref_io url_progress_cb1 gz_rootfs_4g
      (url_data_new\<lparr>unzip := True, progress := False, file_name := []\<rparr>))) =
     Some ''rootfs 4194304'' \<and>
   image_size (snd (url_write_cb ref_io url_progress_cb1 gz_rootfs_4g
      (url_data_new\<lparr>unzip := True, progress := False, file_name := []\<rparr>))) = 4194304 \<and>
   zp_total (snd (url_write_cb ref_io url_progress_cb1 gz_rootfs_4g
      (url_data_new\<lparr>unzip := True, progress := False, file_name := []\<rparr>))) = 0 \<and>
   orig_name (snd (url_write_cb ref_io url_progress_cb1 gz_rootfs_3t
      (url_data_new\<lparr>unzip := True, progress := False, file_name := []\<rparr>))) =
     Some ''rootfs 3000000000'' \<and>
   image_size (snd (url_write_cb ref_io url_progress_cb1 gz_rootfs_3t
      (url_data_new\<lparr>unzip := True, progress := False, file_name := []\<rparr>))) = 0"
proof -
  let ?d = "url_data_new\<lparr>unzip := True, progress := False, file_name := []\<rparr>"
  let ?a = "url_write_fill gz_rootfs_4g (url_write_digest gz_rootfs_4g ?d)"
  let ?b = "url_write_fill gz_rootfs_3t (url_write_digest gz_rootfs_3t ?d)"
  have t: "transfer ?d" by (rule transfer.start)
  have io: "0 < io_mkstemp ref_io \<and> 0 \<le> io_open ref_io"
    by (simp add: ref_io_def)
  txt \<open>the image of 4 GiB\<close>
  have sa: "url_write_sniffs ?a"
    unfolding gz_rootfs_4g_fill
    by (simp add: url_write_sniffs_def url_data_new_def gz_rootfs_4g_bytes)
  have ca: "gzip (url_write_classify ref_io ?a) \<and>
      orig_name (url_write_classify ref_io ?a) = Some (''rootfs'' @ CHR '' '' # ''4194304'')"
    by (simp add: gz_rootfs_4g_fill url_write_classify_def gz_rootfs_4g_bytes gz_rootfs_4g_name
        Let_def)
  have wa: "''rootfs'' \<noteq> [] \<and> (\<forall>c\<in>set ''rootfs''. \<not> isspace c) \<and> ''4194304'' \<noteq> [] \<and>
      (\<forall>c\<in>set ''4194304''. isdigit c)"
    by (simp add: isspace_def isdigit_def)
  have va: "dec_value ''4194304'' = 4194304"
    by (simp add: dec_value_def digit_val_def isdigit_def)
  from url_write_cb_image_size_in_range [OF t, of gz_rootfs_4g ref_io "''rootfs''" "''4194304''"]
    sa ca wa va io
  have a: "image_size (snd (url_write_cb ref_io url_progress_cb1 gz_rootfs_4g ?d)) = 4194304 \<and>
      zp_total (snd (url_write_cb ref_io url_progress_cb1 gz_rootfs_4g ?d)) = 0"
    by (simp add: Let_def push_bit_eq_mult)
  have na: "orig_name (snd (url_write_cb ref_io url_progress_cb1 gz_rootfs_4g ?d)) =
      Some ''rootfs 4194304''"
    using sa ca by (simp add: url_write_cb_class_sel url_write_sniff_def)
  txt \<open>the number that is no \<^verbatim>\<open>int\<close>\<close>
  have sb: "url_write_sniffs ?b"
    unfolding gz_rootfs_3t_fill
    by (simp add: url_write_sniffs_def url_data_new_def gz_rootfs_3t_bytes)
  have cb: "orig_name (url_write_classify ref_io ?b) = Some ''rootfs 3000000000'' \<and>
      image_size (url_write_classify ref_io ?b) = 0"
    unfolding gz_rootfs_3t_fill
    by (simp add: url_write_classify_def gz_rootfs_3t_bytes gz_rootfs_3t_name Let_def)
       (simp add: url_data_new_def)
  then have "image_size (url_write_image_size (url_write_classify ref_io ?b)) = 0"
    by (simp add: url_write_image_size_def sscanf_3t)
  with url_write_cb_image_size_sel [OF sb, of ref_io]
  have b: "image_size (snd (url_write_cb ref_io url_progress_cb1 gz_rootfs_3t ?d)) = 0"
    by simp
  have nb: "orig_name (snd (url_write_cb ref_io url_progress_cb1 gz_rootfs_3t ?d)) =
      Some ''rootfs 3000000000''"
    using sb cb by (simp add: url_write_cb_class_sel url_write_sniff_def)
  from a na b nb show ?thesis by simp
qed

section \<open>Claims about url_progress\<close>

lemma url_progress_percent_le_100: "url_progress_percent d \<le> 100"
  by (simp add: url_progress_percent_def Let_def)

lemma url_progress_update_le_100:
  "fst (url_progress_update d) = Percent n \<Longrightarrow> 0 \<le> n \<and> n \<le> 100"
  using url_progress_percent_le_100 [of d]
  by (auto simp: url_progress_update_def Let_def split: if_splits)

text \<open>
  C6: a percentage that \<^verbatim>\<open>url_progress\<close> shows is never above 100 (the two lemmas above),
  but the percentages shown are not monotone.  With a total of 1 byte, the first update below
  is made after 1 byte and shows 100; the second is made after \<open>2 ^ 30\<close> bytes and shows
  0, because the quotient \<open>100 * 2 ^ 30\<close> is stored in an \<^verbatim>\<open>int\<close> before it is limited to
  100, and its low 32 bits are 0.
\<close>

theorem url_progress_not_monotone:
  "fst (url_progress_update (url_data_new\<lparr>p_total := 1, p_now := 1\<rparr>)) = Percent 100 \<and>
   fst (url_progress_update
         ((snd (url_progress_update (url_data_new\<lparr>p_total := 1, p_now := 1\<rparr>)))
            \<lparr>p_now := 1073741824\<rparr>)) = Percent 0 \<and>
   (1 :: 32 word) \<le> 1073741824"
  by (simp add: url_progress_update_def url_progress_percent_def url_data_new_def)

section \<open>Claims about the end of url_read\<close>

lemma WEXITSTATUS_256: "WIFEXITED 256 \<and> WEXITSTATUS 256 = 1"
  by (simp add: WIFEXITED_def WEXITSTATUS_def)

lemma url_read_stderr_example:
  "url_read_stderr 256 (bytes_of ''gzip: stdin: not in gzip format\<newline>'') =
     ''gzip: stdin: not in gzip format''"
  by (simp add: url_read_stderr_def bytes_of_def c_string_def char_of_byte_eq isspace_def)

text \<open>
  An exit code of the decompressor other than 0 and 2 is the error 103, whatever was pending;
  when the decompressor was killed by a signal, or ended with 0 or 2, the error stays as it
  was.
\<close>

lemma url_read_close_103:
  "f d \<Longrightarrow> 0 \<le> pipe_fd d \<Longrightarrow> WIFEXITED (io_close io) \<Longrightarrow>
   WEXITSTATUS (io_close io) \<noteq> 0 \<Longrightarrow> WEXITSTATUS (io_close io) \<noteq> 2 \<Longrightarrow>
   err (url_read_close io d) = 103 \<and>
   err_buf (url_read_close io d) = snprintf (err_buf_len d) ''gzip: command terminated''"
  by (simp add: url_read_close_def Let_def)

lemma url_read_close_ok:
  "f d \<Longrightarrow> 0 \<le> pipe_fd d \<Longrightarrow>
   \<not> WIFEXITED (io_close io) \<or> WEXITSTATUS (io_close io) = 0 \<or> WEXITSTATUS (io_close io) = 2 \<Longrightarrow>
   err (url_read_close io d) = err d \<and> err_buf (url_read_close io d) = err_buf d"
  by (auto simp: url_read_close_def Let_def)

text \<open>
  C9: the exit code is inspected and an exit code of 1 is the error 103, but the text of the
  side file is not in the message.  Here the decompressor ended with exit code 1 (the status
  256) and wrote \<^verbatim>\<open>gzip: stdin: not in gzip format\<close> to the side file; no error was pending.
  The message \<^verbatim>\<open>url_read\<close> leaves is \<^verbatim>\<open>gzip: command terminated\<close>: line 138 copies the text
  of the side file to \<open>err_buf\<close>, and line 142 overwrites it.
\<close>

theorem url_read_close_drops_stderr:
  "err (url_read_close
         (ref_io\<lparr>io_close := 256,
            io_stderr := bytes_of ''gzip: stdin: not in gzip format\<newline>''\<rparr>)
         (url_data_new\<lparr>gzip := True, f := True, pipe_fd := 4,
            tmp_file := Some ''/tmp/foo_a1b2c3''\<rparr>)) = 103 \<and>
   err_buf (url_read_message (url_read_close
         (ref_io\<lparr>io_close := 256,
            io_stderr := bytes_of ''gzip: stdin: not in gzip format\<newline>''\<rparr>)
         (url_data_new\<lparr>gzip := True, f := True, pipe_fd := 4,
            tmp_file := Some ''/tmp/foo_a1b2c3''\<rparr>))) = ''gzip: command terminated'' \<and>
   url_read_stderr 256 (bytes_of ''gzip: stdin: not in gzip format\<newline>'') =
     ''gzip: stdin: not in gzip format''"
  by (simp add: url_read_close_def url_read_message_def url_data_new_def ref_io_def
      WEXITSTATUS_256 snprintf_def CURL_ERROR_SIZE_def url_read_stderr_example)

section \<open>Facts about the mount orchestrator\<close>

lemma digit_val_digit:
  "n < 10 \<Longrightarrow> digit_val (''0123456789'' ! n) = n"
proof -
  assume "n < 10"
  then have "n \<in> {0, 1, 2, 3, 4, 5, 6, 7, 8, 9}" by auto
  then show ?thesis by (auto simp: digit_val_def isdigit_def)
qed

lemma dec_value_dec_fuel:
  "n < 10 ^ k \<Longrightarrow> 0 < k \<Longrightarrow> dec_value (dec_fuel k n) = n"
proof (induction k arbitrary: n)
  case 0
  then show ?case by simp
next
  case (Suc k)
  show ?case
  proof (cases "n < 10")
    case True
    then show ?thesis by (simp add: dec_value_def digit_val_digit)
  next
    case False
    with Suc.prems have k: "0 < k" by (cases k) auto
    from Suc.prems have "n div 10 < 10 ^ k" by (simp add: less_mult_imp_div_less mult.commute)
    from Suc.IH [OF this k] False show ?thesis
      by (simp add: dec_value_snoc digit_val_digit)
  qed
qed

lemma less_power_10: "n < 10 ^ Suc n"
proof (induction n)
  case 0
  show ?case by simp
next
  case (Suc n)
  then have "Suc n \<le> 10 ^ Suc n" by simp
  also have "\<dots> < 10 * 10 ^ Suc n" by simp
  finally show ?case by simp
qed

text \<open>The names of the mountpoints are all different.\<close>

lemma mountpoint_name_inj: "mountpoint_name a = mountpoint_name b \<Longrightarrow> a = b"
proof -
  assume "mountpoint_name a = mountpoint_name b"
  then have "dec_fuel (Suc a) a = dec_fuel (Suc b) b" by (simp add: mountpoint_name_def)
  then have "dec_value (dec_fuel (Suc a) a) = dec_value (dec_fuel (Suc b) b)" by simp
  then show ?thesis by (simp only: dec_value_dec_fuel [OF less_power_10 zero_less_Suc])
qed

lemma mountpoint_name_0_1_2:
  "mountpoint_name 0 = ''/mounts/mp_0''" "mountpoint_name (Suc 0) = ''/mounts/mp_1''"
  "mountpoint_name 2 = ''/mounts/mp_2''" "mountpoint_name (Suc (Suc 0)) = ''/mounts/mp_2''"
  by (simp_all add: mountpoint_name_def numeral_2_eq_2)

lemma url_setup_slp_mounts:
  "url_setup_slp env os url w = Some (b, url') \<Longrightarrow>
   mount url' = mount url \<and> tmp_mount url' = tmp_mount url"
  by (auto simp: url_setup_slp_def split: if_splits option.splits)

lemma url_setup_device_mounts:
  "url_setup_device env os url w = Some (r, url', w') \<Longrightarrow>
   mount url' = mount url \<and> tmp_mount url' = tmp_mount url"
  by (auto simp: url_setup_device_def Let_def
      split: if_splits option.splits prod.splits bool.splits dest: url_setup_slp_mounts)

lemma url_mount_local_failed:
  "url_mount_local os url w = Inl (url', w') \<Longrightarrow>
   mount url' = mount url \<and> tmp_mount url' = None"
  by (auto simp: url_mount_local_def Let_def split: if_splits prod.splits)

lemma url_mount_finish_failed:
  "url_mount_finish os test_func ok url w = (0, url', w') \<Longrightarrow>
   mount url' = None \<and> tmp_mount url' = None"
  by (auto simp: url_mount_finish_def Let_def split: if_splits prod.splits)

lemma url_mount_disk_failed_fields:
  assumes "url_mount_disk env os test_func dir url w = Some (0, url', w')"
    and "\<not> url_mount_disk_guard url"
  shows "mount url' = None \<and> tmp_mount url' = None"
proof -
  obtain u1 w1 where um: "url_umount os url w = (u1, w1)" by (cases "url_umount os url w")
  let ?u2 = "u1\<lparr>tmp_mount := None, mount := None\<rparr>"
  from assms um obtain r u3 w3 where sd: "url_setup_device env os ?u2 w1 = Some (r, u3, w3)"
    by (auto simp: url_mount_disk_def split: option.splits)
  from url_setup_device_mounts [OF sd] have m3: "mount u3 = None" "tmp_mount u3 = None"
    by simp_all
  show ?thesis
  proof (cases "r = 0")
    case True
    with assms um sd m3 show ?thesis
      by (simp add: url_mount_disk_def)
  next
    case False
    note r = this
    show ?thesis
    proof (cases "is_network u3")
      case False
      show ?thesis
      proof (cases "url_mount_local os u3 w3")
        case (Inl a)
        then obtain u4 w4 where "url_mount_local os u3 w3 = Inl (u4, w4)" by (cases a) auto
        with assms um sd r False url_mount_local_failed [OF this] m3 show ?thesis
          by (simp add: url_mount_disk_def)
      next
        case (Inr b)
        then obtain p u4 w4 where l: "url_mount_local os u3 w3 = Inr (p, u4, w4)"
          by (cases b) auto
        obtain ok u5 w5 where mp: "url_mount_path os dir p u4 w4 = (ok, u5, w5)"
          by (cases "url_mount_path os dir p u4 w4")
        from assms um sd r False l mp
        have "url_mount_finish os test_func ok u5 w5 = (0, url', w')"
          by (simp add: url_mount_disk_def)
        then show ?thesis by (rule url_mount_finish_failed)
      qed
    next
      case True
      from assms um sd r True obtain e p u4 w4
        where n: "url_mount_network os dir u3 w3 = Some (e, p, u4, w4)"
        by (auto simp: url_mount_disk_def split: option.splits)
      obtain ok u5 w5 where mp: "url_mount_path os dir p u4 w4 = (ok, u5, w5)"
        by (cases "url_mount_path os dir p u4 w4")
      from assms um sd r True n mp
      have "url_mount_finish os test_func ok u5 w5 = (0, url', w') \<or>
            url_mount_finish os test_func 0 u4 w4 = (0, url', w')"
        by (simp add: url_mount_disk_def split: if_splits)
      then show ?thesis using url_mount_finish_failed by blast
    qed
  qed
qed


lemma open_mounts_append [simp]: "open_mounts (t @ es) = foldl open_step (open_mounts t) es"
  by (simp add: open_mounts_def)

lemma open_mounts_Nil [simp]: "open_mounts [] = []"
  by (simp add: open_mounts_def)

lemma open_step_simps [simp]:
  "open_step ds (Umount d r) = (if r = 0 then remove_last d ds else ds)"
  "open_step ds (Mount_ro dev dir r) = (if r = 0 then ds @ [dir] else ds)"
  "open_step ds (Mount_nfs dir srv p r) = (if r = 0 then ds @ [dir] else ds)"
  "open_step ds (Mount_smb dir srv sh r) = (if r = 0 then ds @ [dir] else ds)"
  "open_step ds (Read_file p s r) = ds"
  "open_step ds (Unlink s) = ds"
  by (simp_all add: open_step_def)

lemma trace_log [simp]: "trace (log_event e w) = trace w @ [e]"
  by (simp add: log_event_def)

text \<open>
  A call of \<^verbatim>\<open>url_mount_disk\<close> that gets past the argument check and returns 0 leaves
  both mount fields empty, whatever it was that failed (the lemma above).  The two runs that
  follow show what is mounted then.
\<close>

lemmas mount_run_defs =
  url_mount_disk_def url_mount_disk_guard_def url_calloc_def
  url_umount_def util_umount_def log_event_def ref_world_def ref_net_def ref_config_def ref_os_def
  url_setup_device_def inst_defs url_mount_local_def url_mount_local_path_def
  url_mount_network_def url_mount_nfs_def url_mount_nfs_retry_def net_mount_nfs_def
  dir_or_new_def new_mountpoint_def new_download_def util_mount_ro_def url_mount_path_def
  url_mount_finish_def mountpoint_name_0_1_2 dec4_def print_s_def ENOTDIR_def ENOENT_def
  strrchr_cut_def Let_def

lemma repo_run:
  "url_mount_disk ref_env repo_os (Some (test_is_repo ref_env repo_os)) None repo_url repo_world =
     Some (0, repo_url,
       repo_world\<lparr>trace :=
           [Umount None 0, Umount None 0,
            Mount_ro (Some ''/dev/sr0'') (Some ''/mounts/mp_0'') 0,
            Read_file (Some ''/content'') ''/content'' 0,
            Read_file (Some ''boot/x86_64/root'') ''/download/file_0000'' 0,
            Mount_ro (Some ''/download/file_0000'') (Some ''/mounts/instsys'') 0,
            Read_file (Some ''boot/x86_64/root-fonts'') ''/download/file_0001'' 0,
            Mount_ro (Some ''/download/file_0001'') (Some ''/mounts/mp_1'') 1,
            Umount (Some ''/mounts/mp_0'') 0, Umount None 0],
         mp_count := 2, dl_count := 2,
         config := repo_config\<lparr>
           url_instsys := Some (url_calloc\<lparr>scheme := inst_rel,
             path := Some ''boot/x86_64/root'', mount := Some ''/mounts/instsys''\<rparr>)\<rparr>\<rparr>)"
  by (simp add: mount_run_defs repo_url_def repo_world_def repo_config_def repo_os_def
      test_is_repo_def test_is_repo_secure_def test_is_repo_mount_def test_is_repo_instsys2_def
      url_read_file_def)

text \<open>
  A \<^verbatim>\<open>util_umount\<close> that fails leaves its mount in place, and the fields are emptied all
  the same: the directory of the partition is not found, and the partition stays mounted.
\<close>

lemma hd_url_run_busy:
  "url_mount_disk ref_env (ref_os\<lparr>os_umount := (\<lambda>w d. if d = None then 0 else 1)\<rparr>) None None
     hd_url ref_world =
     Some (0, hd_url,
       ref_world\<lparr>trace := [Umount None 0, Umount None 0,
                    Mount_ro (Some ''/dev/sda1'') (Some ''/mounts/mp_0'') 0,
                    Umount None 0, Umount (Some ''/mounts/mp_0'') 1],
                  mp_count := 1\<rparr>) \<and>
   open_mounts [Umount None 0, Umount None 0,
                Mount_ro (Some ''/dev/sda1'') (Some ''/mounts/mp_0'') 0,
                Umount None 0, Umount (Some ''/mounts/mp_0'') 1] = [Some ''/mounts/mp_0'']"
  by (simp add: mount_run_defs hd_url_def open_mounts_def remove_last_def)

lemma strrchr_cut_app:
  "CHR ''/'' \<notin> set seg \<Longrightarrow> strrchr_cut CHR ''/'' (parent @ ''/'' @ seg) = Some (parent, seg)"
  using strrchr_cut_append [of "CHR ''/''" seg parent] by simp

lemma trace_dir_or_new: "dir_or_new dir w = (mp, w1) \<Longrightarrow> trace w1 = trace w"
  by (auto simp: dir_or_new_def new_mountpoint_def split: option.splits)

lemma dir_or_new_None:
  "dir_or_new None w = (mp, w1) \<Longrightarrow> mp = mountpoint_name (mp_count w) \<and> mp_count w1 = Suc (mp_count w)"
  by (auto simp: dir_or_new_def new_mountpoint_def)

section \<open>Claims about url_mount_disk\<close>

text \<open>
  C7: a call that returns 0 and leaves both fields empty, and a mount made during the call
  that is still there.  The url is a CD-ROM url with its device, scheme and path, the
  acceptance test is \<^verbatim>\<open>test_is_repo\<close>, the test \<^verbatim>\<open>url_find_repo\<close> hands to \<^verbatim>\<open>url_mount\<close>.
  The drive is mounted; the test finds the content file, copies the instsys and mounts it at
  \<^verbatim>\<open>/mounts/instsys\<close>, copies the second image and fails to mount it, and returns 0 (lines
  1468--1489) without unmounting the instsys.  \<^verbatim>\<open>url_mount_disk\<close> unmounts the drive and
  returns 0; the instsys is still mounted, and its url still names the mountpoint.
\<close>

theorem url_mount_disk_leaves_instsys:
  "\<not> url_mount_disk_guard repo_url \<and>
   (\<exists>w'. url_mount_disk ref_env repo_os (Some (test_is_repo ref_env repo_os)) None repo_url
            repo_world = Some (0, repo_url, w') \<and>
         mount repo_url = None \<and> tmp_mount repo_url = None \<and>
         events_since repo_world w' =
           [Umount None 0, Umount None 0,
            Mount_ro (Some ''/dev/sr0'') (Some ''/mounts/mp_0'') 0,
            Read_file (Some ''/content'') ''/content'' 0,
            Read_file (Some ''boot/x86_64/root'') ''/download/file_0000'' 0,
            Mount_ro (Some ''/download/file_0000'') (Some ''/mounts/instsys'') 0,
            Read_file (Some ''boot/x86_64/root-fonts'') ''/download/file_0001'' 0,
            Mount_ro (Some ''/download/file_0001'') (Some ''/mounts/mp_1'') 1,
            Umount (Some ''/mounts/mp_0'') 0, Umount None 0] \<and>
         open_mounts (events_since repo_world w') = [Some ''/mounts/instsys''] \<and>
         map_option mount (url_instsys (config w')) = Some (Some ''/mounts/instsys''))"
proof -
  have g: "\<not> url_mount_disk_guard repo_url"
    by (simp add: url_mount_disk_guard_def repo_url_def url_calloc_def inst_defs)
  have m: "mount repo_url = None \<and> tmp_mount repo_url = None"
    by (simp add: repo_url_def url_calloc_def)
  have t: "trace repo_world = []"
    by (simp add: repo_world_def ref_world_def)
  show ?thesis
    using g m
    by (simp add: repo_run events_since_def t open_mounts_def remove_last_def open_step_def)
qed

text \<open>
  C10: in a call of \<^verbatim>\<open>url_mount_disk\<close> that gets past the argument check and the device
  setup with an NFS url whose path is \<open>parent/seg\<close> (\<open>parent\<close> and \<open>seg\<close> not empty, no
  slash in \<open>seg\<close>), the NFS mount of the path fails with \<^verbatim>\<open>ENOTDIR\<close> or \<^verbatim>\<open>ENOENT\<close>.
  Then \<open>parent\<close> is mounted at a new mountpoint \<open>mp2\<close>, whose name differs from the name
  of every mountpoint handed out before (and so from the mountpoint of the first attempt,
  when that was a new one).  When this mount succeeds, the call goes on with the path
  \<open>mp2/seg\<close> and a url whose \<open>mount\<close> is NULL and whose \<open>tmp_mount\<close> is \<open>mp2\<close>; when
  it fails, both fields are NULL and the call fails.
\<close>

theorem url_mount_disk_nfs_retry:
  assumes "\<not> url_mount_disk_guard url"
    and "url_umount os url w = (u0, w0)"
    and "url_setup_device env os (u0\<lparr>tmp_mount := None, mount := None\<rparr>) w0 = Some (r, u, w1)"
    and "r \<noteq> 0" and "is_network u" and "scheme u = inst_nfs"
    and "path u = Some (parent @ ''/'' @ seg)"
    and "parent \<noteq> []" and "seg \<noteq> []" and "CHR ''/'' \<notin> set seg"
    and "dir_or_new dir w1 = (mp, w2)"
    and "e1 = os_mount_nfs os w2 (Some mp) (used_server u) (path u)"
    and "e1 = ENOTDIR \<or> e1 = ENOENT"
    and "w3 = log_event (Mount_nfs (Some mp) (used_server u) (path u) e1) w2"
    and "mp2 = mountpoint_name (mp_count w3)"
    and "w4 = w3\<lparr>mp_count := Suc (mp_count w3)\<rparr>"
    and "e2 = os_mount_nfs os w4 (Some mp2) (used_server u) (Some parent)"
    and "w5 = log_event (Mount_nfs (Some mp2) (used_server u) (Some parent) e2) w4"
  shows "url_mount_disk env os test_func dir url w =
           (if e2 = 0 then
              (case url_mount_path os dir (Some (mp2 @ ''/'' @ seg))
                      (u\<lparr>mount := None, tmp_mount := Some mp2\<rparr>) w5 of
                 (ok, u', w') \<Rightarrow> Some (url_mount_finish os test_func ok u' w'))
            else Some (url_mount_finish os test_func 0 (u\<lparr>mount := None, tmp_mount := None\<rparr>) w5)) \<and>
         trace w5 = trace w1 @
           [Mount_nfs (Some mp) (used_server u) (path u) e1,
            Mount_nfs (Some mp2) (used_server u) (Some parent) e2] \<and>
         (\<forall>j < mp_count w3. mountpoint_name j \<noteq> mp2) \<and>
         (dir = None \<longrightarrow> mp \<noteq> mp2)"
proof -
  from assms(7) obtain p where p: "path u = Some p" "p = parent @ ''/'' @ seg" by simp
  have c: "strrchr_cut CHR ''/'' p = Some (parent, seg)"
    unfolding p(2) using assms(10) by (rule strrchr_cut_app)
  have e1: "e1 \<noteq> 0" using assms(13) by (auto simp: ENOTDIR_def ENOENT_def)
  txt \<open>the second attempt\<close>
  have retry: "url_mount_nfs_retry os e1 p (u\<lparr>mount := None\<rparr>) w3 =
      (e2, if e2 = 0 then Some (mp2 @ ''/'' @ seg) else None,
       if e2 = 0 then u\<lparr>mount := None, tmp_mount := Some mp2\<rparr>
       else u\<lparr>mount := None, tmp_mount := None\<rparr>, w5)"
    using c assms(8,9)
    by (simp add: url_mount_nfs_retry_def new_mountpoint_def net_mount_nfs_def Let_def
        assms(15-18))
  have nfs: "url_mount_nfs os dir u w1 =
      Some (e2, if e2 = 0 then Some (mp2 @ ''/'' @ seg) else None,
       if e2 = 0 then u\<lparr>mount := None, tmp_mount := Some mp2\<rparr>
       else u\<lparr>mount := None, tmp_mount := None\<rparr>, w5)"
  proof -
    have n1: "net_mount_nfs os (Some mp) (used_server u) (Some p) w2 = (e1, w3)"
      by (simp add: net_mount_nfs_def assms(12,14) p(1))
    have "url_mount_nfs os dir u w1 =
        (if e1 = ENOTDIR \<or> e1 = ENOENT
         then Some (url_mount_nfs_retry os e1 p (u\<lparr>mount := None\<rparr>) w3)
         else if e1 = 0 then Some (e1, Some mp, u\<lparr>mount := Some mp\<rparr>, w3)
         else Some (e1, None, u\<lparr>mount := Some mp\<rparr>, w3))"
      unfolding url_mount_nfs_def assms(11) Let_def prod.case
      by (simp add: n1 p(1))
    also have "\<dots> = Some (url_mount_nfs_retry os e1 p (u\<lparr>mount := None\<rparr>) w3)"
      using assms(13) by simp
    finally show ?thesis by (simp only: retry)
  qed
  have net: "url_mount_network os dir u w1 = url_mount_nfs os dir u w1"
    using assms(6) by (simp add: url_mount_network_def)
  have 1: "url_mount_disk env os test_func dir url w =
           (if e2 = 0 then
              (case url_mount_path os dir (Some (mp2 @ ''/'' @ seg))
                      (u\<lparr>mount := None, tmp_mount := Some mp2\<rparr>) w5 of
                 (ok, u', w') \<Rightarrow> Some (url_mount_finish os test_func ok u' w'))
            else Some (url_mount_finish os test_func 0 (u\<lparr>mount := None, tmp_mount := None\<rparr>) w5))"
    using assms(1,4,5)
    by (simp add: url_mount_disk_def assms(2,3) net nfs)
  have 2: "trace w5 = trace w1 @
           [Mount_nfs (Some mp) (used_server u) (path u) e1,
            Mount_nfs (Some mp2) (used_server u) (Some parent) e2]"
    using trace_dir_or_new [OF assms(11)] by (simp add: assms(14,16,18) log_event_def)
  have 3: "\<forall>j < mp_count w3. mountpoint_name j \<noteq> mp2"
    unfolding assms(15) using mountpoint_name_inj by blast
  have 4: "dir = None \<longrightarrow> mp \<noteq> mp2"
  proof
    assume "dir = None"
    with assms(11) have "mp = mountpoint_name (mp_count w1)" "mp_count w2 = Suc (mp_count w1)"
      using dir_or_new_None by blast+
    moreover have "mp_count w3 = mp_count w2" by (simp add: assms(14) log_event_def)
    ultimately show "mp \<noteq> mp2"
      unfolding assms(15) using mountpoint_name_inj [of "mp_count w1" "Suc (mp_count w1)"] by auto
  qed
  from 1 2 3 4 show ?thesis by blast
qed

theorem url_mount_disk_nfs_retry_witness:
  "\<not> url_mount_disk_guard nfs_url \<and> is_network nfs_url \<and> scheme nfs_url = inst_nfs \<and>
   path nfs_url = Some (''/install'' @ ''/'' @ ''boot.iso'') \<and>
   os_mount_nfs ref_os (ref_world\<lparr>trace := [Umount None 0, Umount None 0], mp_count := 1\<rparr>)
     (Some ''/mounts/mp_0'') (used_server nfs_url) (path nfs_url) = ENOTDIR \<and>
   url_mount_disk ref_env ref_os None None nfs_url ref_world =
     Some (1, nfs_url\<lparr>mount := Some ''/mounts/mp_2'', tmp_mount := Some ''/mounts/mp_1'',
                     is_file := True\<rparr>,
       ref_world\<lparr>trace :=
           [Umount None 0, Umount None 0,
            Mount_nfs (Some ''/mounts/mp_0'') (Some ''srv'') (Some ''/install/boot.iso'') ENOTDIR,
            Mount_nfs (Some ''/mounts/mp_1'') (Some ''srv'') (Some ''/install'') 0,
            Mount_ro (Some ''/mounts/mp_1/boot.iso'') (Some ''/mounts/mp_2'') 0],
         mp_count := 3\<rparr>) \<and>
   ''/mounts/mp_0'' \<noteq> ''/mounts/mp_1''"
proof -
  let ?w0 = "ref_world\<lparr>trace := [Umount None 0, Umount None 0]\<rparr>"
  let ?w2 = "ref_world\<lparr>trace := [Umount None 0, Umount None 0], mp_count := 1\<rparr>"
  have g: "\<not> url_mount_disk_guard nfs_url"
    by (simp add: url_mount_disk_guard_def nfs_url_def url_calloc_def inst_defs)
  have um: "url_umount ref_os nfs_url ref_world = (nfs_url, ?w0)"
    by (simp add: url_umount_def util_umount_def log_event_def ref_os_def ref_world_def
        nfs_url_def url_calloc_def Let_def)
  have sd: "url_setup_device ref_env ref_os (nfs_url\<lparr>tmp_mount := None, mount := None\<rparr>) ?w0 =
      Some (1, nfs_url, ?w0)"
    by (simp add: url_setup_device_def nfs_url_def url_calloc_def inst_defs ref_world_def
        ref_net_def)
  have n: "is_network nfs_url" "scheme nfs_url = inst_nfs"
    "path nfs_url = Some (''/install'' @ ''/'' @ ''boot.iso'')"
    by (simp_all add: nfs_url_def)
  have d: "dir_or_new None ?w0 = (''/mounts/mp_0'', ?w2)"
    by (simp add: dir_or_new_def new_mountpoint_def ref_world_def mountpoint_name_0_1_2)
  have e1: "os_mount_nfs ref_os ?w2 (Some ''/mounts/mp_0'') (used_server nfs_url) (path nfs_url) =
      ENOTDIR"
    by (simp add: ref_os_def nfs_url_def)
  note th = url_mount_disk_nfs_retry [OF g um sd _ n _ _ _ d e1 [symmetric] _ refl refl refl refl refl,
      where test_func = None]
  have "url_mount_disk ref_env ref_os None None nfs_url ref_world =
     Some (1, nfs_url\<lparr>mount := Some ''/mounts/mp_2'', tmp_mount := Some ''/mounts/mp_1'',
                     is_file := True\<rparr>,
       ref_world\<lparr>trace :=
           [Umount None 0, Umount None 0,
            Mount_nfs (Some ''/mounts/mp_0'') (Some ''srv'') (Some ''/install/boot.iso'') ENOTDIR,
            Mount_nfs (Some ''/mounts/mp_1'') (Some ''srv'') (Some ''/install'') 0,
            Mount_ro (Some ''/mounts/mp_1/boot.iso'') (Some ''/mounts/mp_2'') 0],
         mp_count := 3\<rparr>) \<and>
   ''/mounts/mp_0'' \<noteq> ''/mounts/mp_1''"
    using th
    by (simp add: nfs_url_def url_calloc_def ref_os_def ref_world_def log_event_def
        mountpoint_name_0_1_2 url_mount_path_def url_mount_finish_def dir_or_new_def
        new_mountpoint_def util_mount_ro_def Let_def)
  with g n e1 show ?thesis by simp
qed

section \<open>Claims about url_mount\<close>

text \<open>When the loop skips every device, nothing is tried and \<open>err\<close> stays 0.\<close>

lemma url_mount_loop_skipped:
  "\<forall>h \<in> set hds. url_mount_skips env os url h \<Longrightarrow>
   url_mount_loop env os test_func dir hds url w found e = Some (url, w, found, e)"
  by (induction hds) simp_all

lemma url_mount_nothing_tried:
  assumes "scheme url \<noteq> 0" and "scheme url \<noteq> inst_file" and "used_device url = None"
    and "device url = None"
    and "\<forall>h \<in> set (hd_list (url_mount_hw_item url)). url_mount_skips env os url h"
  shows "url_mount env os True hd_list test_func dir url w = Some (0, url, w)"
  using assms url_mount_loop_skipped [OF assms(5), of test_func dir w 0 0]
  by (simp add: url_mount_def)

text \<open>
  C8: with an empty hardware list and a url that names no device, \<^verbatim>\<open>url_mount\<close> calls
  \<^verbatim>\<open>url_mount_disk\<close> not once and returns 0, the value for success: \<open>err\<close> is 0 from its
  declaration, \<open>found\<close> is 0, and line 1224 returns \<^verbatim>\<open>found ? 0 : err\<close>.  Nothing is mounted
  and no device is chosen.
\<close>

theorem url_mount_no_candidate:
  "url_mount ref_env ref_os True (\<lambda>c. []) None None cd_url ref_world = Some (0, cd_url, ref_world) \<and>
   mount cd_url = None \<and> used_device cd_url = None"
  using url_mount_nothing_tried [of cd_url "\<lambda>c. []" ref_env ref_os None None ref_world]
  by (simp add: cd_url_def url_calloc_def inst_defs)

end
